theory Spec2Isabelle
  imports Complex_Main
begin

section \<open>Data model\<close>

text \<open>
  The order and cart controllers work on three Mongoose collections (products, carts,
  orders).  Document ids are compared through their string form, so an id is a string.
  Quantities and stock are integers.  A money value is the rational number a JavaScript
  number (a finite double) stands for; arithmetic on money is not exact in JavaScript,
  see \<open>multiply\<close> below.  Field names carry a prefix per document kind, since several
  documents share the names \<open>product\<close>, \<open>price\<close>, \<open>quantity\<close>.
\<close>

type_synonym oid = string

record product =
  p_name :: string
  p_sku :: string
  p_price :: rat
  p_stock :: int

record cartItem =
  ci_id :: oid
  ci_product :: oid
  ci_variant :: "oid option"
  ci_quantity :: int
  ci_price :: rat
  ci_savedForLater :: bool

record coupon =
  cp_code :: string
  cp_value :: rat

record cart =
  c_id :: oid
  c_user :: "oid option"
  c_sessionId :: "string option"
  c_items :: "cartItem list"
  c_appliedCoupons :: "coupon list"
  c_subtotal :: rat
  c_discountTotal :: rat
  c_taxTotal :: rat
  c_shippingTotal :: rat
  c_grandTotal :: rat

record orderItem =
  oi_product :: oid
  oi_variant :: "oid option"
  oi_name :: string
  oi_sku :: string
  oi_price :: rat
  oi_quantity :: int
  oi_subtotal :: rat

record orderCoupon =
  oc_code :: string
  oc_discount :: rat

record historyEntry =
  h_status :: string
  h_note :: string

record order =
  o_user :: "oid option"
  o_email :: "string option"
  o_items :: "orderItem list"
  o_billingAddress :: string
  o_shippingAddress :: string
  o_paymentMethod :: string
  o_shippingMethod :: string
  o_subtotal :: rat
  o_discountTotal :: rat
  o_taxTotal :: rat
  o_shippingTotal :: rat
  o_grandTotal :: rat
  o_notes :: "string option"
  o_appliedCoupons :: "orderCoupon list"
  o_status :: string
  o_statusHistory :: "historyEntry list"

record user =
  u_id :: oid
  u_email :: string
  u_role :: string

text \<open>
  The database: products and orders are looked up by id only, carts are searched by
  owner, so the cart collection keeps its documents in a list.
\<close>

record db =
  products :: "oid \<rightharpoonup> product"
  carts :: "cart list"
  orders :: "oid \<rightharpoonup> order"

text \<open>
  Every write to the database is awaited and may reject.  The environment says which
  writes reject: an order save, a cart save, or the \<open>n\<close>-th stock update of a loop
  (counted from 0).  It also supplies the id a new order document receives.  Reads are
  taken to succeed: in each controller a rejected read precedes every write.

  The environment also carries JavaScript's \<open>*\<close> on a price and a quantity.  That is an
  IEEE-754 double multiplication, which rounds its result, so it is not the product of
  the rationals (\<open>0.1 * 3\<close> is \<open>0.30000000000000004\<close>).  The model does not fix the
  operation: \<open>multiply\<close> is whatever the runtime computes, and every theorem holds for
  every such operation.
\<close>

record env =
  orderSaveFails :: bool
  cartSaveFails :: bool
  stockUpdateFailsAt :: "nat option"
  newOrderId :: oid
  multiply :: "rat \<Rightarrow> int \<Rightarrow> rat"

datatype error =
    ApiError nat string
  | TypeError
  | PersistenceError string

section \<open>Persistence layer\<close>

datatype cartQuery = ByUser oid | BySession string

text \<open>JavaScript truthiness of an optional string: absent and empty are falsy.\<close>

definition truthy :: "string option \<Rightarrow> bool" where
  "truthy s = (case s of None \<Rightarrow> False | Some v \<Rightarrow> v \<noteq> [])"

text \<open>
  The query built from the caller's identity: the authenticated user when there is one,
  else a truthy session id, else nothing (the controllers then raise 400).
\<close>

definition buildQuery :: "user option \<Rightarrow> string option \<Rightarrow> cartQuery option" where
  "buildQuery usr sessionId =
     (case usr of
        Some u \<Rightarrow> Some (ByUser (u_id u))
      | None \<Rightarrow> (if truthy sessionId then Some (BySession (the sessionId)) else None))"

fun matchesQuery :: "cartQuery \<Rightarrow> cart \<Rightarrow> bool" where
  "matchesQuery (ByUser uid) c = (c_user c = Some uid)"
| "matchesQuery (BySession sid) c = (c_sessionId c = Some sid)"

definition findOneCart :: "db \<Rightarrow> cartQuery \<Rightarrow> cart option" where
  "findOneCart d q = find (matchesQuery q) (carts d)"

definition saveCart :: "env \<Rightarrow> db \<Rightarrow> cart \<Rightarrow> error + db" where
  "saveCart e d c =
     (if cartSaveFails e then Inl (PersistenceError ''cart.save'')
      else Inr (d\<lparr>carts := map (\<lambda>x. if c_id x = c_id c then c else x) (carts d)\<rparr>))"

text \<open>Saving a new order inserts it; a taken id is a duplicate-key rejection.\<close>

definition insertOrder :: "env \<Rightarrow> db \<Rightarrow> order \<Rightarrow> error + db" where
  "insertOrder e d ord =
     (if orderSaveFails e \<or> orders d (newOrderId e) \<noteq> None
      then Inl (PersistenceError ''order.save'')
      else Inr (d\<lparr>orders := (orders d)(newOrderId e \<mapsto> ord)\<rparr>))"

text \<open>Saving a loaded order overwrites the document it was loaded from.\<close>

definition saveOrder :: "env \<Rightarrow> db \<Rightarrow> oid \<Rightarrow> order \<Rightarrow> error + db" where
  "saveOrder e d i ord =
     (if orderSaveFails e then Inl (PersistenceError ''order.save'')
      else Inr (d\<lparr>orders := (orders d)(i \<mapsto> ord)\<rparr>))"

text \<open>
  \<open>Product.findByIdAndUpdate(id, {$inc: {stock: delta}})\<close>: adds \<open>delta\<close> to the stock of
  the product when it exists, and does nothing otherwise (also for a null id).  No
  validator runs, so the stock may become negative.
\<close>

definition incStock :: "oid option \<Rightarrow> int \<Rightarrow> (oid \<rightharpoonup> product) \<Rightarrow> (oid \<rightharpoonup> product)" where
  "incStock i delta ps =
     (case i of
        None \<Rightarrow> ps
      | Some k \<Rightarrow>
          (case ps k of
             None \<Rightarrow> ps
           | Some p \<Rightarrow> ps(k \<mapsto> p\<lparr>p_stock := p_stock p + delta\<rparr>)))"

text \<open>
  A loop of awaited stock updates.  The first argument counts down to the update that
  rejects; the updates made before it stay in the database.
\<close>

fun adjustStock ::
  "nat option \<Rightarrow> (oid option \<times> int) list \<Rightarrow> (oid \<rightharpoonup> product) \<Rightarrow> error option \<times> (oid \<rightharpoonup> product)"
where
  "adjustStock f [] ps = (None, ps)"
| "adjustStock f ((i, delta) # rest) ps =
     (if f = Some 0 then (Some (PersistenceError ''Product.findByIdAndUpdate''), ps)
      else adjustStock (map_option (\<lambda>n. n - 1) f) rest (incStock i delta ps))"

section \<open>createOrder\<close>

record createOrderReq =
  r_user :: "user option"
  r_sessionId :: "string option"
  r_email :: "string option"
  r_shippingAddress :: string
  r_billingAddress :: string
  r_paymentMethod :: string
  r_shippingMethod :: string
  r_notes :: "string option"

text \<open>
  \<open>populate("items.product")\<close> replaces the product reference of each line item by the
  product document, or by null when the product is gone.
\<close>

record populatedItem =
  pi_item :: cartItem
  pi_product :: "product option"

definition populate :: "db \<Rightarrow> cartItem list \<Rightarrow> populatedItem list" where
  "populate d its = map (\<lambda>it. \<lparr>pi_item = it, pi_product = products d (ci_product it)\<rparr>) its"

text \<open>The id a populated reference casts to: the product's id, or null.\<close>

definition refId :: "populatedItem \<Rightarrow> oid option" where
  "refId it = (case pi_product it of None \<Rightarrow> None | Some _ \<Rightarrow> Some (ci_product (pi_item it)))"

definition findProductById :: "db \<Rightarrow> oid option \<Rightarrow> product option" where
  "findProductById d i = (case i of None \<Rightarrow> None | Some k \<Rightarrow> products d k)"

text \<open>The stock validation loop: the first line item that fails raises.\<close>

fun validateStock :: "db \<Rightarrow> populatedItem list \<Rightarrow> error option" where
  "validateStock d [] = None"
| "validateStock d (it # rest) =
     (case findProductById d (refId it) of
        None \<Rightarrow> Some (ApiError 400 (''Not enough stock for '' @ ''a product''))
      | Some p \<Rightarrow>
          (if p_stock p < ci_quantity (pi_item it)
           then Some (ApiError 400 (''Not enough stock for '' @ p_name p))
           else validateStock d rest))"

text \<open>
  One order line; reading \<open>_id\<close> of a null product is a TypeError.  The subtotal is
  \<open>item.price * item.quantity\<close> as JavaScript computes it.
\<close>

definition orderItemOf :: "env \<Rightarrow> populatedItem \<Rightarrow> error + orderItem" where
  "orderItemOf e it =
     (case pi_product it of
        None \<Rightarrow> Inl TypeError
      | Some p \<Rightarrow>
          Inr \<lparr>oi_product = ci_product (pi_item it),
               oi_variant = ci_variant (pi_item it),
               oi_name = p_name p,
               oi_sku = p_sku p,
               oi_price = ci_price (pi_item it),
               oi_quantity = ci_quantity (pi_item it),
               oi_subtotal = multiply e (ci_price (pi_item it)) (ci_quantity (pi_item it))\<rparr>)"

fun orderItemsOf :: "env \<Rightarrow> populatedItem list \<Rightarrow> error + orderItem list" where
  "orderItemsOf e [] = Inr []"
| "orderItemsOf e (it # rest) =
     (case orderItemOf e it of
        Inl err \<Rightarrow> Inl err
      | Inr oi \<Rightarrow>
          (case orderItemsOf e rest of Inl err \<Rightarrow> Inl err | Inr ois \<Rightarrow> Inr (oi # ois)))"

text \<open>
  Modelled from the spec: the Order schema (models/order.model.js) is not among the
  sources; the constructor call sets no status, and the spec gives the initial status
  as \<open>pending\<close>, which is the schema default taken here.
\<close>

definition defaultStatus :: string where
  "defaultStatus = ''pending''"

definition newOrder :: "createOrderReq \<Rightarrow> cart \<Rightarrow> orderItem list \<Rightarrow> order" where
  "newOrder req c ois =
     \<lparr>o_user = (case r_user req of Some u \<Rightarrow> Some (u_id u) | None \<Rightarrow> None),
      o_email = (case r_user req of Some u \<Rightarrow> Some (u_email u) | None \<Rightarrow> r_email req),
      o_items = ois,
      o_billingAddress = r_billingAddress req,
      o_shippingAddress = r_shippingAddress req,
      o_paymentMethod = r_paymentMethod req,
      o_shippingMethod = r_shippingMethod req,
      o_subtotal = c_subtotal c,
      o_discountTotal = c_discountTotal c,
      o_taxTotal = c_taxTotal c,
      o_shippingTotal = c_shippingTotal c,
      o_grandTotal = c_grandTotal c,
      o_notes = r_notes req,
      o_appliedCoupons = map (\<lambda>cp. \<lparr>oc_code = cp_code cp, oc_discount = cp_value cp\<rparr>) (c_appliedCoupons c),
      o_status = defaultStatus,
      o_statusHistory = [\<lparr>h_status = ''pending'', h_note = ''Order created''\<rparr>]\<rparr>"

definition clearedCart :: "cart \<Rightarrow> cart" where
  "clearedCart c =
     c\<lparr>c_items := [], c_appliedCoupons := [], c_subtotal := 0, c_discountTotal := 0,
       c_taxTotal := 0, c_shippingTotal := 0, c_grandTotal := 0\<rparr>"

definition decrements :: "populatedItem list \<Rightarrow> (oid option \<times> int) list" where
  "decrements its = map (\<lambda>it. (refId it, - ci_quantity (pi_item it))) its"

definition createOrder :: "env \<Rightarrow> createOrderReq \<Rightarrow> db \<Rightarrow> (error + order) \<times> db" where
  "createOrder e req d =
     (case buildQuery (r_user req) (r_sessionId req) of
        None \<Rightarrow> (Inl (ApiError 400 ''Session ID is required for guest checkout''), d)
      | Some q \<Rightarrow>
     (case findOneCart d q of
        None \<Rightarrow> (Inl (ApiError 400 ''Cart is empty''), d)
      | Some c \<Rightarrow>
     (if c_items c = [] then (Inl (ApiError 400 ''Cart is empty''), d)
      else
     (let its = populate d (c_items c) in
     (case validateStock d its of
        Some err \<Rightarrow> (Inl err, d)
      | None \<Rightarrow>
     (case orderItemsOf e its of
        Inl err \<Rightarrow> (Inl err, d)
      | Inr ois \<Rightarrow>
     (let ord = newOrder req c ois in
     (case insertOrder e d ord of
        Inl err \<Rightarrow> (Inl err, d)
      | Inr d1 \<Rightarrow>
     (case adjustStock (stockUpdateFailsAt e) (decrements its) (products d1) of
        (Some err, ps) \<Rightarrow> (Inl err, d1\<lparr>products := ps\<rparr>)
      | (None, ps) \<Rightarrow>
     (let d2 = d1\<lparr>products := ps\<rparr> in
     (case saveCart e d2 (clearedCart c) of
        Inl err \<Rightarrow> (Inl err, d2)
      | Inr d3 \<Rightarrow> (Inr ord, d3))))))))))))"

section \<open>updateOrderStatus and cancelOrder\<close>

text \<open>
  \<open>note || `Status updated to ${status}`\<close>: the note when it is truthy, else the default.
\<close>

definition orElse :: "string option \<Rightarrow> string \<Rightarrow> string" where
  "orElse s dflt = (if truthy s then the s else dflt)"

definition updateOrderStatus ::
  "env \<Rightarrow> oid \<Rightarrow> string \<Rightarrow> string option \<Rightarrow> db \<Rightarrow> (error + order) \<times> db"
where
  "updateOrderStatus e i status note d =
     (case orders d i of
        None \<Rightarrow> (Inl (ApiError 404 ''Order not found''), d)
      | Some ord \<Rightarrow>
     (let ord' = ord\<lparr>o_status := status,
                     o_statusHistory := o_statusHistory ord @
                       [\<lparr>h_status = status, h_note = orElse note (''Status updated to '' @ status)\<rparr>]\<rparr>
      in
     (case saveOrder e d i ord' of
        Inl err \<Rightarrow> (Inl err, d)
      | Inr d1 \<Rightarrow> (Inr ord', d1))))"

record cancelReq =
  cr_user :: "user option"
  cr_id :: oid
  cr_reason :: "string option"

text \<open>
  The ownership test of cancelOrder (and of getOrderById):
  \<open>req.user.role !== "admin" && order.user && order.user.toString() !== req.user.id\<close>.
\<close>

definition notAuthorized :: "user \<Rightarrow> order \<Rightarrow> bool" where
  "notAuthorized u ord =
     (u_role u \<noteq> ''admin'' \<and> o_user ord \<noteq> None \<and> the (o_user ord) \<noteq> u_id u)"

definition cancellable :: "string \<Rightarrow> bool" where
  "cancellable status = (status \<in> set [''pending'', ''processing''])"

definition restores :: "orderItem list \<Rightarrow> (oid option \<times> int) list" where
  "restores its = map (\<lambda>it. (Some (oi_product it), oi_quantity it)) its"

definition cancelOrder :: "env \<Rightarrow> cancelReq \<Rightarrow> db \<Rightarrow> (error + order) \<times> db" where
  "cancelOrder e req d =
     (case orders d (cr_id req) of
        None \<Rightarrow> (Inl (ApiError 404 ''Order not found''), d)
      | Some ord \<Rightarrow>
     (case cr_user req of
        None \<Rightarrow> (Inl TypeError, d)
      | Some u \<Rightarrow>
     (if notAuthorized u ord
      then (Inl (ApiError 403 ''You are not authorized to cancel this order''), d)
      else if \<not> cancellable (o_status ord)
      then (Inl (ApiError 400 ''This order cannot be cancelled''), d)
      else
     (let ord' = ord\<lparr>o_status := ''cancelled'',
                     o_statusHistory := o_statusHistory ord @
                       [\<lparr>h_status = ''cancelled'',
                         h_note = orElse (cr_reason req) ''Order cancelled by user''\<rparr>]\<rparr>
      in
     (case saveOrder e d (cr_id req) ord' of
        Inl err \<Rightarrow> (Inl err, d)
      | Inr d1 \<Rightarrow>
     (case adjustStock (stockUpdateFailsAt e) (restores (o_items ord')) (products d1) of
        (Some err, ps) \<Rightarrow> (Inl err, d1\<lparr>products := ps\<rparr>)
      | (None, ps) \<Rightarrow> (Inr ord', d1\<lparr>products := ps\<rparr>)))))))"

section \<open>updateCartItem\<close>

record updateItemReq =
  ur_user :: "user option"
  ur_sessionId :: "string option"
  ur_itemId :: oid
  ur_quantity :: "int option"
  ur_savedForLater :: "bool option"

text \<open>\<open>Array.prototype.findIndex\<close>, with \<open>None\<close> for -1.\<close>

fun findIndex :: "('a \<Rightarrow> bool) \<Rightarrow> 'a list \<Rightarrow> nat option" where
  "findIndex P [] = None"
| "findIndex P (x # xs) = (if P x then Some 0 else map_option Suc (findIndex P xs))"

text \<open>\<open>items.splice(i, 1)\<close>\<close>

definition splice1 :: "nat \<Rightarrow> 'a list \<Rightarrow> 'a list" where
  "splice1 i xs = take i xs @ drop (Suc i) xs"

text \<open>
  The quantity branch: a quantity of 0 or less removes the item; a positive one is
  checked against the stock of the item's product and stored.
\<close>

definition applyQuantity :: "db \<Rightarrow> nat \<Rightarrow> int option \<Rightarrow> cartItem list \<Rightarrow> error + cartItem list" where
  "applyQuantity d i quantity its =
     (case quantity of
        None \<Rightarrow> Inr its
      | Some q \<Rightarrow>
          (if q \<le> 0 then Inr (splice1 i its)
           else
             (case products d (ci_product (its ! i)) of
                None \<Rightarrow> Inl (ApiError 400 ''Not enough stock available'')
              | Some p \<Rightarrow>
                  (if p_stock p < q then Inl (ApiError 400 ''Not enough stock available'')
                   else Inr (its[i := (its ! i)\<lparr>ci_quantity := q\<rparr>])))))"

text \<open>
  The savedForLater branch writes through the index found before the quantity branch
  ran.  Past the end of the list \<open>cart.items[itemIndex]\<close> is undefined, and setting
  a property of undefined is a TypeError.
\<close>

definition applySavedForLater :: "nat \<Rightarrow> bool option \<Rightarrow> cartItem list \<Rightarrow> error + cartItem list" where
  "applySavedForLater i savedForLater its =
     (case savedForLater of
        None \<Rightarrow> Inr its
      | Some b \<Rightarrow>
          (if i < length its then Inr (its[i := (its ! i)\<lparr>ci_savedForLater := b\<rparr>])
           else Inl TypeError))"

text \<open>
  \<open>cart.recalculateTotals()\<close> is a method of the Cart schema (models/cart.model.js),
  which is not among the sources; it is the parameter \<open>recalc\<close>.  The response carries
  the saved cart (its final populate only decorates the response).
\<close>

definition updateCartItem ::
  "(cart \<Rightarrow> cart) \<Rightarrow> env \<Rightarrow> updateItemReq \<Rightarrow> db \<Rightarrow> (error + cart) \<times> db"
where
  "updateCartItem recalc e req d =
     (case buildQuery (ur_user req) (ur_sessionId req) of
        None \<Rightarrow> (Inl (ApiError 400 ''Session ID is required for guest cart''), d)
      | Some q \<Rightarrow>
     (case findOneCart d q of
        None \<Rightarrow> (Inl (ApiError 404 ''Cart not found''), d)
      | Some c \<Rightarrow>
     (case findIndex (\<lambda>it. ci_id it = ur_itemId req) (c_items c) of
        None \<Rightarrow> (Inl (ApiError 404 ''Item not found in cart''), d)
      | Some itemIndex \<Rightarrow>
     (case applyQuantity d itemIndex (ur_quantity req) (c_items c) of
        Inl err \<Rightarrow> (Inl err, d)
      | Inr its1 \<Rightarrow>
     (case applySavedForLater itemIndex (ur_savedForLater req) its1 of
        Inl err \<Rightarrow> (Inl err, d)
      | Inr its2 \<Rightarrow>
     (let c' = recalc (c\<lparr>c_items := its2\<rparr>) in
     (case saveCart e d c' of
        Inl err \<Rightarrow> (Inl err, d)
      | Inr d1 \<Rightarrow> (Inr c', d1))))))))"


text \<open>
  The order line \<open>createOrder\<close> builds for a cart line whose product exists.
\<close>

abbreviation snapshot :: "env \<Rightarrow> db \<Rightarrow> cartItem \<Rightarrow> orderItem" where
  "snapshot e d it \<equiv>
     \<lparr>oi_product = ci_product it, oi_variant = ci_variant it,
      oi_name = p_name (the (products d (ci_product it))),
      oi_sku = p_sku (the (products d (ci_product it))),
      oi_price = ci_price it, oi_quantity = ci_quantity it,
      oi_subtotal = multiply e (ci_price it) (ci_quantity it)\<rparr>"

text \<open>No product of the collection has a negative stock.\<close>

abbreviation stockNonneg :: "(oid \<rightharpoonup> product) \<Rightarrow> bool" where
  "stockNonneg ps \<equiv> (\<forall>k p. ps k = Some p \<longrightarrow> 0 \<le> p_stock p)"

section \<open>Example data\<close>

text \<open>
  A shop with two products, and the cart of the customer Alice: two pens added at a unit
  price of 10 (the catalogue price has since become 12) and one quill.
\<close>

definition exPen :: product where
  "exPen = \<lparr>p_name = ''Pen'', p_sku = ''PEN-1'', p_price = 12, p_stock = 5\<rparr>"

definition exQuill :: product where
  "exQuill = \<lparr>p_name = ''Quill'', p_sku = ''QUILL-1'', p_price = 20, p_stock = 1\<rparr>"

definition exAlice :: user where
  "exAlice = \<lparr>u_id = ''u1'', u_email = ''alice@example.org'', u_role = ''customer''\<rparr>"

definition exBob :: user where
  "exBob = \<lparr>u_id = ''u2'', u_email = ''bob@example.org'', u_role = ''customer''\<rparr>"

definition exLinePen :: cartItem where
  "exLinePen = \<lparr>ci_id = ''i1'', ci_product = ''p'', ci_variant = None, ci_quantity = 2,
                ci_price = 10, ci_savedForLater = False\<rparr>"

definition exLineQuill :: cartItem where
  "exLineQuill = \<lparr>ci_id = ''i2'', ci_product = ''q'', ci_variant = None, ci_quantity = 1,
                  ci_price = 20, ci_savedForLater = False\<rparr>"

definition exCart :: cart where
  "exCart = \<lparr>c_id = ''c1'', c_user = Some ''u1'', c_sessionId = None,
             c_items = [exLinePen, exLineQuill], c_appliedCoupons = [],
             c_subtotal = 40, c_discountTotal = 0, c_taxTotal = 0, c_shippingTotal = 0,
             c_grandTotal = 40\<rparr>"

definition exDb :: db where
  "exDb = \<lparr>products = [''p'' \<mapsto> exPen, ''q'' \<mapsto> exQuill], carts = [exCart], orders = Map.empty\<rparr>"

text \<open>
  An environment in which no write rejects.  All prices and quantities of the examples
  are small integers, on which the double product is the exact product.
\<close>

definition exEnv :: env where
  "exEnv = \<lparr>orderSaveFails = False, cartSaveFails = False, stockUpdateFailsAt = None,
            newOrderId = ''o1'', multiply = (\<lambda>p n. p * of_int n)\<rparr>"

definition exReq :: createOrderReq where
  "exReq = \<lparr>r_user = Some exAlice, r_sessionId = None, r_email = None,
            r_shippingAddress = ''1 Main St'', r_billingAddress = ''1 Main St'',
            r_paymentMethod = ''card'', r_shippingMethod = ''standard'', r_notes = None\<rparr>"

text \<open>The order Alice's cart turns into.\<close>

definition exOrder :: order where
  "exOrder =
     \<lparr>o_user = Some ''u1'', o_email = Some ''alice@example.org'',
      o_items =
        [\<lparr>oi_product = ''p'', oi_variant = None, oi_name = ''Pen'', oi_sku = ''PEN-1'',
          oi_price = 10, oi_quantity = 2, oi_subtotal = 20\<rparr>,
         \<lparr>oi_product = ''q'', oi_variant = None, oi_name = ''Quill'', oi_sku = ''QUILL-1'',
          oi_price = 20, oi_quantity = 1, oi_subtotal = 20\<rparr>],
      o_billingAddress = ''1 Main St'', o_shippingAddress = ''1 Main St'',
      o_paymentMethod = ''card'', o_shippingMethod = ''standard'',
      o_subtotal = 40, o_discountTotal = 0, o_taxTotal = 0, o_shippingTotal = 0,
      o_grandTotal = 40, o_notes = None, o_appliedCoupons = [],
      o_status = ''pending'',
      o_statusHistory = [\<lparr>h_status = ''pending'', h_note = ''Order created''\<rparr>]\<rparr>"

text \<open>A cart with two lines for the same product (two variants of it).\<close>

definition exDupCart :: cart where
  "exDupCart = exCart\<lparr>c_items :=
      [exLinePen\<lparr>ci_variant := Some ''v1'', ci_quantity := 3\<rparr>,
       exLinePen\<lparr>ci_id := ''i2'', ci_variant := Some ''v2'', ci_quantity := 3\<rparr>]\<rparr>"

definition exDupDb :: db where
  "exDupDb = exDb\<lparr>carts := [exDupCart]\<rparr>"

text \<open>The same shop with the quill sold out.\<close>

definition exShortDb :: db where
  "exShortDb = exDb\<lparr>products := [''p'' \<mapsto> exPen, ''q'' \<mapsto> exQuill\<lparr>p_stock := 0\<rparr>]\<rparr>"

text \<open>
  The shop with the quill sold out, where Alice's cart starts with a line for a product
  that has since been deleted from the catalogue.
\<close>

definition exGoneLine :: cartItem where
  "exGoneLine = \<lparr>ci_id = ''i0'', ci_product = ''x'', ci_variant = None, ci_quantity = 1,
                 ci_price = 5, ci_savedForLater = False\<rparr>"

definition exGoneCart :: cart where
  "exGoneCart = exCart\<lparr>c_items := [exGoneLine, exLinePen, exLineQuill]\<rparr>"

definition exGoneDb :: db where
  "exGoneDb = exShortDb\<lparr>carts := [exGoneCart]\<rparr>"

text \<open>A cart whose only line is saved for later.\<close>

definition exSavedCart :: cart where
  "exSavedCart = exCart\<lparr>c_items := [exLinePen\<lparr>ci_savedForLater := True\<rparr>],
                        c_subtotal := 0, c_grandTotal := 0\<rparr>"

definition exSavedDb :: db where
  "exSavedDb = exDb\<lparr>carts := [exSavedCart]\<rparr>"

text \<open>The shop after the order was placed, and variants of the placed order.\<close>

definition exPlacedDb :: "order \<Rightarrow> db" where
  "exPlacedDb ord =
     \<lparr>products = [''p'' \<mapsto> exPen\<lparr>p_stock := 3\<rparr>, ''q'' \<mapsto> exQuill\<lparr>p_stock := 0\<rparr>],
      carts = [clearedCart exCart], orders = [''o1'' \<mapsto> ord]\<rparr>"

definition exCancelled :: order where
  "exCancelled = exOrder\<lparr>o_status := ''cancelled'',
      o_statusHistory := o_statusHistory exOrder @
        [\<lparr>h_status = ''cancelled'', h_note = ''Order cancelled by user''\<rparr>]\<rparr>"

definition exShipped :: order where
  "exShipped = exOrder\<lparr>o_status := ''shipped'',
      o_statusHistory := o_statusHistory exOrder @
        [\<lparr>h_status = ''shipped'', h_note = ''Status updated to shipped''\<rparr>]\<rparr>"

definition exGuestOrder :: order where
  "exGuestOrder = exOrder\<lparr>o_user := None\<rparr>"

definition exCancelReq :: "user \<Rightarrow> cancelReq" where
  "exCancelReq u = \<lparr>cr_user = Some u, cr_id = ''o1'', cr_reason = None\<rparr>"

text \<open>
  A cart update that sets the quantity of a line to 0 and marks it saved for later.
\<close>

definition exUpdateReq :: "oid \<Rightarrow> updateItemReq" where
  "exUpdateReq i = \<lparr>ur_user = Some exAlice, ur_sessionId = None, ur_itemId = i,
                    ur_quantity = Some 0, ur_savedForLater = Some True\<rparr>"

lemmas model_defs =
  truthy_def buildQuery_def findOneCart_def saveCart_def insertOrder_def saveOrder_def
  incStock_def populate_def refId_def findProductById_def orderItemOf_def defaultStatus_def
  newOrder_def clearedCart_def decrements_def createOrder_def orElse_def updateOrderStatus_def
  notAuthorized_def cancellable_def restores_def cancelOrder_def splice1_def applyQuantity_def
  applySavedForLater_def updateCartItem_def Let_def

lemmas example_defs =
  exPen_def exQuill_def exAlice_def exBob_def exLinePen_def exLineQuill_def exCart_def exDb_def
  exEnv_def exReq_def exOrder_def exDupCart_def exDupDb_def exShortDb_def exSavedCart_def
  exSavedDb_def exPlacedDb_def exCancelled_def exGuestOrder_def exCancelReq_def
  exGoneLine_def exGoneCart_def exGoneDb_def

section \<open>Stock updates\<close>

lemma incStock_lookup:
  "incStock i delta ps k =
     map_option (\<lambda>p. p\<lparr>p_stock := p_stock p + (if i = Some k then delta else 0)\<rparr>) (ps k)"
  by (cases i; cases "ps k") (auto simp: incStock_def split: option.splits)

lemma adjustStock_no_failure:
  "adjustStock None xs ps = (None, fold (\<lambda>x. incStock (fst x) (snd x)) xs ps)"
  by (induction xs arbitrary: ps) auto

lemma adjustStock_completed:
  "adjustStock f xs ps = (None, ps') \<Longrightarrow> ps' = fold (\<lambda>x. incStock (fst x) (snd x)) xs ps"
  by (induction f xs ps rule: adjustStock.induct) (auto split: if_splits)

lemma adjustStock_error:
  "adjustStock f xs ps = (Some err, ps') \<Longrightarrow> err = PersistenceError ''Product.findByIdAndUpdate''"
  by (induction f xs ps rule: adjustStock.induct) (auto split: if_splits)

lemma fold_incStock_lookup:
  "fold (\<lambda>x. incStock (fst x) (snd x)) xs ps k =
     map_option (\<lambda>p. p\<lparr>p_stock := p_stock p + sum_list (map snd (filter (\<lambda>x. fst x = Some k) xs))\<rparr>) (ps k)"
proof (induction xs arbitrary: ps)
  case Nil
  show ?case by (cases "ps k") simp_all
next
  case (Cons x xs)
  have "fold (\<lambda>x. incStock (fst x) (snd x)) (x # xs) ps k =
          fold (\<lambda>x. incStock (fst x) (snd x)) xs (incStock (fst x) (snd x) ps) k"
    by simp
  also have "\<dots> = map_option
        (\<lambda>p. p\<lparr>p_stock := p_stock p + sum_list (map snd (filter (\<lambda>x. fst x = Some k) xs))\<rparr>)
        (incStock (fst x) (snd x) ps k)"
    by (rule Cons.IH)
  also have "\<dots> = map_option
        (\<lambda>p. p\<lparr>p_stock := p_stock p + sum_list (map snd (filter (\<lambda>x. fst x = Some k) (x # xs)))\<rparr>)
        (ps k)"
    unfolding incStock_lookup by (cases "ps k") simp_all
  finally show ?case .
qed

lemma decrements_sum:
  assumes "\<forall>it\<in>set its. products d (ci_product it) \<noteq> None"
  shows "sum_list (map snd (filter (\<lambda>x. fst x = Some k) (decrements (populate d its)))) =
           - sum_list (map ci_quantity (filter (\<lambda>it. ci_product it = k) its))"
  using assms
  by (induction its) (auto simp: decrements_def populate_def refId_def)

lemma restores_sum:
  "sum_list (map snd (filter (\<lambda>x. fst x = Some k) (restores its))) =
     sum_list (map oi_quantity (filter (\<lambda>it. oi_product it = k) its))"
  by (induction its) (auto simp: restores_def)

section \<open>Carts\<close>

lemma find_Some_holds: "find P xs = Some c \<Longrightarrow> P c"
  by (induction xs) (auto split: if_splits)

lemma find_replace_same:
  assumes "find P xs = Some c" and "P c'"
  shows "find P (map (\<lambda>x. if f x = f c then c' else x) xs) = Some c'"
  using assms
proof (induction xs)
  case Nil
  then show ?case by simp
next
  case (Cons x xs)
  then show ?case by (cases "P x") auto
qed

lemma matchesQuery_clearedCart: "matchesQuery q (clearedCart c) = matchesQuery q c"
  by (cases q) (simp_all add: clearedCart_def)

lemma c_id_clearedCart: "c_id (clearedCart c) = c_id c"
  by (simp add: clearedCart_def)

lemma findOneCart_after_clear:
  assumes "findOneCart d q = Some c"
  shows "find (matchesQuery q) (map (\<lambda>x. if c_id x = c_id c then clearedCart c else x) (carts d))
           = Some (clearedCart c)"
proof -
  from assms have f: "find (matchesQuery q) (carts d) = Some c"
    by (simp add: findOneCart_def)
  then have "matchesQuery q (clearedCart c)"
    by (simp add: matchesQuery_clearedCart find_Some_holds)
  with f show ?thesis by (rule find_replace_same)
qed

lemma findIndex_Some:
  "findIndex P xs = Some i \<Longrightarrow> i < length xs \<and> P (xs ! i)"
proof (induction xs arbitrary: i)
  case Nil
  then show ?case by simp
next
  case (Cons x xs)
  then show ?case by (cases "P x") auto
qed

lemma splice1_last: "Suc i = length xs \<Longrightarrow> length (splice1 i xs) = i"
  by (simp add: splice1_def)

lemma splice1_inner:
  assumes "Suc i < length xs"
  shows "(splice1 i xs)[i := f (splice1 i xs ! i)] = take i xs @ f (xs ! Suc i) # drop (Suc (Suc i)) xs"
proof -
  from assms have d: "drop (Suc i) xs = xs ! Suc i # drop (Suc (Suc i)) xs"
    by (simp add: Cons_nth_drop_Suc)
  from assms have l: "length (take i xs) = i" by simp
  show ?thesis
    unfolding splice1_def d using assms by (simp add: list_update_append nth_append min_def)
qed

section \<open>The stock check\<close>

lemma validateStock_pass:
  assumes "\<forall>it\<in>set its. \<exists>p. products d (ci_product it) = Some p \<and> ci_quantity it \<le> p_stock p"
  shows "validateStock d (populate d its) = None"
  using assms
  by (induction its) (auto simp: populate_def refId_def findProductById_def)

lemma validateStock_None:
  "validateStock d (populate d its) = None \<Longrightarrow>
     \<forall>it\<in>set its. \<exists>p. products d (ci_product it) = Some p \<and> ci_quantity it \<le> p_stock p"
proof (induction its)
  case Nil
  then show ?case by simp
next
  case (Cons x xs)
  from Cons.prems obtain p where p: "products d (ci_product x) = Some p"
    by (cases "products d (ci_product x)") (auto simp: populate_def refId_def findProductById_def)
  with Cons.prems have le: "ci_quantity x \<le> p_stock p"
    by (auto simp: populate_def refId_def findProductById_def split: if_splits)
  from Cons.prems p le have "validateStock d (populate d xs) = None"
    by (auto simp: populate_def refId_def findProductById_def split: if_splits)
  with Cons.IH p le show ?case by simp
qed

lemma validateStock_error:
  "validateStock d its = Some err \<Longrightarrow> \<exists>label. err = ApiError 400 (''Not enough stock for '' @ label)"
  by (induction its) (auto split: option.splits if_splits)

lemma validateStock_fail:
  assumes "\<exists>it\<in>set its. \<exists>p. products d (ci_product it) = Some p \<and> p_stock p < ci_quantity it"
  shows "\<exists>it\<in>set its. \<exists>label.
           validateStock d (populate d its) = Some (ApiError 400 (''Not enough stock for '' @ label)) \<and>
           (case products d (ci_product it) of
              None \<Rightarrow> label = ''a product''
            | Some p \<Rightarrow> p_stock p < ci_quantity it \<and> label = p_name p)"
  using assms
proof (induction its)
  case Nil
  then show ?case by simp
next
  case (Cons x xs)
  show ?case
  proof (cases "products d (ci_product x)")
    case None
    then have "validateStock d (populate d (x # xs)) = Some (ApiError 400 (''Not enough stock for '' @ ''a product''))"
      by (simp add: populate_def refId_def findProductById_def)
    with None show ?thesis by (intro bexI[of _ x] exI[of _ "''a product''"]) simp_all
  next
    case (Some p)
    show ?thesis
    proof (cases "p_stock p < ci_quantity x")
      case True
      with Some have "validateStock d (populate d (x # xs)) = Some (ApiError 400 (''Not enough stock for '' @ p_name p))"
        by (simp add: populate_def refId_def findProductById_def)
      with Some True show ?thesis by (intro bexI[of _ x] exI[of _ "p_name p"]) simp_all
    next
      case False
      with Some Cons.prems
      have "\<exists>it\<in>set xs. \<exists>p. products d (ci_product it) = Some p \<and> p_stock p < ci_quantity it"
        by auto
      from Cons.IH[OF this] obtain it label where
        it: "it \<in> set xs" and
        v: "validateStock d (populate d xs) = Some (ApiError 400 (''Not enough stock for '' @ label))" and
        l: "(case products d (ci_product it) of None \<Rightarrow> label = ''a product''
             | Some p \<Rightarrow> p_stock p < ci_quantity it \<and> label = p_name p)"
        by blast
      have "validateStock d (populate d (x # xs)) = validateStock d (populate d xs)"
        using Some False by (simp add: populate_def refId_def findProductById_def)
      with v have "validateStock d (populate d (x # xs)) = Some (ApiError 400 (''Not enough stock for '' @ label))"
        by simp
      with it l show ?thesis by (intro bexI[of _ it] exI[of _ label]) simp_all
    qed
  qed
qed

lemma orderItemsOf_populate:
  assumes "\<forall>it\<in>set its. products d (ci_product it) \<noteq> None"
  shows "orderItemsOf e (populate d its) =
           Inr (map (\<lambda>it. \<lparr>oi_product = ci_product it, oi_variant = ci_variant it,
                          oi_name = p_name (the (products d (ci_product it))),
                          oi_sku = p_sku (the (products d (ci_product it))),
                          oi_price = ci_price it, oi_quantity = ci_quantity it,
                          oi_subtotal = multiply e (ci_price it) (ci_quantity it)\<rparr>) its)"
  using assms
  by (induction its) (auto simp: populate_def orderItemOf_def)

section \<open>The paths through createOrder\<close>

lemma createOrder_no_cart:
  "buildQuery (r_user req) (r_sessionId req) = None \<Longrightarrow>
     createOrder e req d = (Inl (ApiError 400 ''Session ID is required for guest checkout''), d)"
  "buildQuery (r_user req) (r_sessionId req) = Some q \<Longrightarrow> findOneCart d q = None \<Longrightarrow>
     createOrder e req d = (Inl (ApiError 400 ''Cart is empty''), d)"
  "buildQuery (r_user req) (r_sessionId req) = Some q \<Longrightarrow> findOneCart d q = Some c \<Longrightarrow> c_items c = [] \<Longrightarrow>
     createOrder e req d = (Inl (ApiError 400 ''Cart is empty''), d)"
  by (simp_all add: createOrder_def)

lemma createOrder_not_validated:
  assumes q: "buildQuery (r_user req) (r_sessionId req) = Some q"
    and c: "findOneCart d q = Some c"
    and ne: "c_items c \<noteq> []"
    and v: "validateStock d (populate d (c_items c)) = Some err"
  shows "createOrder e req d = (Inl err, d)"
  using assms by (simp add: createOrder_def Let_def)

lemma createOrder_validated:
  assumes q: "buildQuery (r_user req) (r_sessionId req) = Some q"
    and c: "findOneCart d q = Some c"
    and ne: "c_items c \<noteq> []"
    and v: "validateStock d (populate d (c_items c)) = None"
  shows "createOrder e req d =
     (let ord = newOrder req c (map (snapshot e d) (c_items c)) in
      if orderSaveFails e \<or> orders d (newOrderId e) \<noteq> None
      then (Inl (PersistenceError ''order.save''), d)
      else
        (case adjustStock (stockUpdateFailsAt e) (decrements (populate d (c_items c))) (products d) of
           (Some err, ps) \<Rightarrow> (Inl err, d\<lparr>orders := (orders d)(newOrderId e \<mapsto> ord), products := ps\<rparr>)
         | (None, ps) \<Rightarrow>
             if cartSaveFails e
             then (Inl (PersistenceError ''cart.save''),
                   d\<lparr>orders := (orders d)(newOrderId e \<mapsto> ord), products := ps\<rparr>)
             else (Inr ord,
                   d\<lparr>orders := (orders d)(newOrderId e \<mapsto> ord), products := ps,
                     carts := map (\<lambda>x. if c_id x = c_id c then clearedCart c else x) (carts d)\<rparr>)))"
proof -
  have ex: "\<forall>it\<in>set (c_items c). products d (ci_product it) \<noteq> None"
    using validateStock_None[OF v] by auto
  show ?thesis
    using q c ne v
    by (simp add: createOrder_def orderItemsOf_populate[OF ex] insertOrder_def saveCart_def Let_def
        c_id_clearedCart split: prod.splits option.splits)
qed

lemma createOrder_success_shape:
  assumes q: "buildQuery (r_user req) (r_sessionId req) = Some q"
    and c: "findOneCart d q = Some c"
    and ne: "c_items c \<noteq> []"
    and suff: "\<forall>it\<in>set (c_items c). \<exists>p. products d (ci_product it) = Some p \<and> ci_quantity it \<le> p_stock p"
    and env: "\<not> orderSaveFails e" "orders d (newOrderId e) = None"
             "stockUpdateFailsAt e = None" "\<not> cartSaveFails e"
  shows "createOrder e req d =
     (Inr (newOrder req c (map (\<lambda>it. \<lparr>oi_product = ci_product it, oi_variant = ci_variant it,
                          oi_name = p_name (the (products d (ci_product it))),
                          oi_sku = p_sku (the (products d (ci_product it))),
                          oi_price = ci_price it, oi_quantity = ci_quantity it,
                          oi_subtotal = multiply e (ci_price it) (ci_quantity it)\<rparr>) (c_items c))),
      d\<lparr>orders := (orders d)(newOrderId e \<mapsto> newOrder req c (map (\<lambda>it. \<lparr>oi_product = ci_product it, oi_variant = ci_variant it,
                          oi_name = p_name (the (products d (ci_product it))),
                          oi_sku = p_sku (the (products d (ci_product it))),
                          oi_price = ci_price it, oi_quantity = ci_quantity it,
                          oi_subtotal = multiply e (ci_price it) (ci_quantity it)\<rparr>) (c_items c))),
        products := fold (\<lambda>x. incStock (fst x) (snd x)) (decrements (populate d (c_items c))) (products d),
        carts := map (\<lambda>x. if c_id x = c_id c then clearedCart c else x) (carts d)\<rparr>)"
proof -
  have ex: "\<forall>it\<in>set (c_items c). products d (ci_product it) \<noteq> None"
    using suff by auto
  show ?thesis
    using q c ne env
    by (simp add: createOrder_def validateStock_pass[OF suff] orderItemsOf_populate[OF ex]
        insertOrder_def adjustStock_no_failure saveCart_def Let_def clearedCart_def)
qed

lemma createOrder_success_resolves:
  assumes ok: "createOrder e req d = (Inr ord, d')"
  obtains q c where "buildQuery (r_user req) (r_sessionId req) = Some q"
    and "findOneCart d q = Some c" and "c_items c \<noteq> []"
    and "validateStock d (populate d (c_items c)) = None"
proof (cases "buildQuery (r_user req) (r_sessionId req)")
  case None
  from createOrder_no_cart(1)[OF None, of e d] ok show ?thesis by simp
next
  case (Some q)
  show ?thesis
  proof (cases "findOneCart d q")
    case None
    from createOrder_no_cart(2)[OF Some None, of e] ok show ?thesis by simp
  next
    case c: (Some c)
    show ?thesis
    proof (cases "c_items c = []")
      case True
      from createOrder_no_cart(3)[OF Some c True, of e] ok show ?thesis by simp
    next
      case ne: False
      show ?thesis
      proof (cases "validateStock d (populate d (c_items c))")
        case None
        with Some c ne that show ?thesis by blast
      next
        case verr: (Some verr)
        from createOrder_not_validated[OF Some c ne verr, of e] ok show ?thesis by simp
      qed
    qed
  qed
qed

lemma createOrder_success_order:
  assumes ok: "createOrder e req d = (Inr ord, d')"
    and q: "buildQuery (r_user req) (r_sessionId req) = Some q"
    and c: "findOneCart d q = Some c"
  shows "ord = newOrder req c (map (snapshot e d) (c_items c)) \<and>
         validateStock d (populate d (c_items c)) = None"
proof -
  from ok obtain q' c' where q': "buildQuery (r_user req) (r_sessionId req) = Some q'"
    and c': "findOneCart d q' = Some c'" and ne: "c_items c' \<noteq> []"
    and v: "validateStock d (populate d (c_items c')) = None"
    by (rule createOrder_success_resolves)
  from q q' c c' have same: "c' = c" "q' = q" by simp_all
  from createOrder_validated[OF q' c' ne v, of e] ok same v show ?thesis
    by (auto simp: Let_def split: if_splits prod.splits option.splits)
qed

lemma createOrder_success_stock:
  assumes ok: "createOrder e req d = (Inr ord, d')"
    and q: "buildQuery (r_user req) (r_sessionId req) = Some q"
    and c: "findOneCart d q = Some c"
  shows "products d' k =
           map_option (\<lambda>p. p\<lparr>p_stock := p_stock p -
                sum_list (map ci_quantity (filter (\<lambda>it. ci_product it = k) (c_items c)))\<rparr>)
             (products d k)"
proof -
  from createOrder_success_order[OF ok q c]
  have v: "validateStock d (populate d (c_items c)) = None" by simp
  have ex: "\<forall>it\<in>set (c_items c). products d (ci_product it) \<noteq> None"
    using validateStock_None[OF v] by auto
  have ne: "c_items c \<noteq> []"
    using ok q c by (auto simp: createOrder_no_cart(3))
  obtain r ps where adj:
    "adjustStock (stockUpdateFailsAt e) (decrements (populate d (c_items c))) (products d) = (r, ps)"
    by (cases "adjustStock (stockUpdateFailsAt e) (decrements (populate d (c_items c))) (products d)")
  from createOrder_validated[OF q c ne v, of e] ok adj
  have r: "r = None" and d': "products d' = ps"
    by (auto simp: Let_def split: if_splits option.splits)
  from adj r have "ps = fold (\<lambda>x. incStock (fst x) (snd x)) (decrements (populate d (c_items c))) (products d)"
    by (auto dest: adjustStock_completed)
  then show ?thesis
    by (simp add: d' fold_incStock_lookup decrements_sum[OF ex])
qed

lemma cart_is_empty_iff:
  "(fst (createOrder e req d) = Inl (ApiError 400 ''Cart is empty'')) =
     (\<exists>q. buildQuery (r_user req) (r_sessionId req) = Some q \<and>
          (case findOneCart d q of None \<Rightarrow> True | Some c \<Rightarrow> c_items c = []))"
proof (cases "buildQuery (r_user req) (r_sessionId req)")
  case None
  from createOrder_no_cart(1)[OF None, of e d] None show ?thesis by simp
next
  case (Some q)
  show ?thesis
  proof (cases "findOneCart d q")
    case None
    from createOrder_no_cart(2)[OF Some None, of e] Some None show ?thesis by simp
  next
    case c: (Some c)
    show ?thesis
    proof (cases "c_items c = []")
      case True
      from createOrder_no_cart(3)[OF Some c True, of e] Some c True show ?thesis by simp
    next
      case ne: False
      have "fst (createOrder e req d) \<noteq> Inl (ApiError 400 ''Cart is empty'')"
      proof (cases "validateStock d (populate d (c_items c))")
        case verr: (Some verr)
        from createOrder_not_validated[OF Some c ne verr, of e] validateStock_error[OF verr]
        show ?thesis by auto
      next
        case None
        from createOrder_validated[OF Some c ne None, of e] show ?thesis
          by (auto simp: Let_def split: prod.splits option.splits dest: adjustStock_error)
      qed
      with Some c ne show ?thesis by simp
    qed
  qed
qed

lemma ex_query: "buildQuery (r_user exReq) (r_sessionId exReq) = Some (ByUser ''u1'')"
  by (simp add: buildQuery_def exReq_def exAlice_def)


section \<open>The paths through cancelOrder\<close>

lemma cancelOrder_rejected:
  assumes "orders d (cr_id req) = Some ord" and "cr_user req = Some u"
    and "\<not> notAuthorized u ord"
    and "o_status ord \<noteq> ''pending''" and "o_status ord \<noteq> ''processing''"
  shows "cancelOrder e req d = (Inl (ApiError 400 ''This order cannot be cancelled''), d)"
  using assms by (simp add: cancelOrder_def cancellable_def)

lemma cancelOrder_accepted:
  assumes "orders d (cr_id req) = Some ord" and "cr_user req = Some u"
    and "\<not> notAuthorized u ord"
    and "o_status ord = ''pending'' \<or> o_status ord = ''processing''"
    and "\<not> orderSaveFails e" and "stockUpdateFailsAt e = None"
  shows "cancelOrder e req d =
     (Inr (ord\<lparr>o_status := ''cancelled'',
               o_statusHistory := o_statusHistory ord @
                 [\<lparr>h_status = ''cancelled'', h_note = orElse (cr_reason req) ''Order cancelled by user''\<rparr>]\<rparr>),
      d\<lparr>orders := (orders d)(cr_id req \<mapsto> ord\<lparr>o_status := ''cancelled'',
               o_statusHistory := o_statusHistory ord @
                 [\<lparr>h_status = ''cancelled'', h_note = orElse (cr_reason req) ''Order cancelled by user''\<rparr>]\<rparr>),
        products := fold (\<lambda>x. incStock (fst x) (snd x)) (restores (o_items ord)) (products d)\<rparr>)"
  using assms
  by (auto simp: cancelOrder_def cancellable_def saveOrder_def adjustStock_no_failure Let_def)

section \<open>Stock with one line per product\<close>

text \<open>
  When the lines of the cart refer to pairwise different products, the stock check does
  protect the stock: whatever the outcome of createOrder, also when a write rejects
  halfway, no stock becomes negative.
\<close>

lemma incStock_other: "i \<noteq> Some k \<Longrightarrow> incStock i delta ps k = ps k"
  by (simp add: incStock_lookup option.map_ident)

lemma incStock_nonneg:
  assumes "stockNonneg ps"
    and "\<And>k p. i = Some k \<Longrightarrow> ps k = Some p \<Longrightarrow> 0 \<le> p_stock p + delta"
  shows "stockNonneg (incStock i delta ps)"
proof (intro allI impI)
  fix k p
  assume "incStock i delta ps k = Some p"
  then obtain p0 where p0: "ps k = Some p0"
    and p: "p = p0\<lparr>p_stock := p_stock p0 + (if i = Some k then delta else 0)\<rparr>"
    by (auto simp: incStock_lookup)
  from assms(1) p0 have "0 \<le> p_stock p0" by blast
  with assms(2)[of k p0] p0 p show "0 \<le> p_stock p" by (cases "i = Some k") simp_all
qed

lemma adjustStock_nonneg:
  assumes "adjustStock f xs ps = (r, ps')"
    and "stockNonneg ps"
    and "distinct (map fst xs)"
    and "\<forall>x\<in>set xs. \<forall>k p. fst x = Some k \<longrightarrow> ps k = Some p \<longrightarrow> 0 \<le> p_stock p + snd x"
  shows "stockNonneg ps'"
  using assms
proof (induction xs arbitrary: f ps)
  case Nil
  then show ?case by simp
next
  case (Cons x xs)
  obtain i delta where x: "x = (i, delta)" by (cases x)
  show ?case
  proof (cases "f = Some 0")
    case True
    with Cons.prems x show ?thesis by simp
  next
    case False
    with Cons.prems(1) x
    have run: "adjustStock (map_option (\<lambda>n. n - 1) f) xs (incStock i delta ps) = (r, ps')"
      by simp
    have nn: "stockNonneg (incStock i delta ps)"
      using Cons.prems(2,4) x by (intro incStock_nonneg) auto
    have dist: "distinct (map fst xs)" and fresh: "i \<notin> fst ` set xs"
      using Cons.prems(3) x by auto
    have rest: "\<forall>y\<in>set xs. \<forall>k p. fst y = Some k \<longrightarrow> incStock i delta ps k = Some p \<longrightarrow> 0 \<le> p_stock p + snd y"
    proof (intro ballI allI impI)
      fix y k p
      assume y: "y \<in> set xs" and k: "fst y = Some k" and p: "incStock i delta ps k = Some p"
      from y fresh k have "i \<noteq> Some k" by force
      with p have "ps k = Some p" by (simp add: incStock_other)
      with Cons.prems(4) y k show "0 \<le> p_stock p + snd y" by auto
    qed
    from Cons.IH[OF run nn dist rest] show ?thesis .
  qed
qed

lemma decrements_keys:
  assumes "\<forall>it\<in>set its. products d (ci_product it) \<noteq> None"
  shows "map fst (decrements (populate d its)) = map (\<lambda>it. Some (ci_product it)) its"
  using assms by (induction its) (auto simp: decrements_def populate_def refId_def)

lemma createOrder_distinct_lines_stock_nonneg:
  assumes run: "createOrder e req d = (res, d')"
    and q: "buildQuery (r_user req) (r_sessionId req) = Some q"
    and c: "findOneCart d q = Some c"
    and dist: "distinct (map ci_product (c_items c))"
    and nn: "stockNonneg (products d)"
  shows "stockNonneg (products d')"
proof (cases "c_items c \<noteq> [] \<and> validateStock d (populate d (c_items c)) = None")
  case False
  then have "d' = d"
    using run createOrder_no_cart(3)[OF q c, of e] createOrder_not_validated[OF q c, of _ e]
    by (cases "c_items c = []"; cases "validateStock d (populate d (c_items c))") auto
  with nn show ?thesis by simp
next
  case True
  then have ne: "c_items c \<noteq> []" and v: "validateStock d (populate d (c_items c)) = None"
    by simp_all
  from validateStock_None[OF v]
  have suff: "\<forall>it\<in>set (c_items c). \<exists>p. products d (ci_product it) = Some p \<and> ci_quantity it \<le> p_stock p" .
  then have ex: "\<forall>it\<in>set (c_items c). products d (ci_product it) \<noteq> None" by auto
  obtain r ps where adj:
    "adjustStock (stockUpdateFailsAt e) (decrements (populate d (c_items c))) (products d) = (r, ps)"
    by (cases "adjustStock (stockUpdateFailsAt e) (decrements (populate d (c_items c))) (products d)")
  have keys: "distinct (map fst (decrements (populate d (c_items c))))"
    using dist by (simp add: decrements_keys[OF ex] distinct_map inj_on_def)
  have room: "\<forall>x\<in>set (decrements (populate d (c_items c))). \<forall>k p.
      fst x = Some k \<longrightarrow> products d k = Some p \<longrightarrow> 0 \<le> p_stock p + snd x"
    using suff by (auto simp: decrements_def populate_def refId_def)
  from adjustStock_nonneg[OF adj nn keys room] have ps: "stockNonneg ps" .
  from createOrder_validated[OF q c ne v, of e] run adj
  have "products d' = products d \<or> products d' = ps"
    by (auto simp: Let_def split: if_splits option.splits)
  with nn ps show ?thesis by auto
qed

section \<open>Stock never negative (C1)\<close>

text \<open>
  Claim C1: after any sequence of createOrder and cancelOrder operations the stock of a
  product that started at 0 or more is still 0 or more, also when one cart holds several
  lines for the same product.

  The stock check of createOrder compares each line with the product's stock on its own,
  and the decrement loop then subtracts every line.  With a stock of 5 and two lines of 3
  for the same product, both lines pass the check, the order is created, and the stock
  ends at -1.
\<close>

theorem createOrder_duplicate_lines_oversell:
  "map_option p_stock (products exDupDb ''p'') = Some 5 \<and>
   \<not> isl (fst (createOrder exEnv exReq exDupDb)) \<and>
   map_option p_stock (products (snd (createOrder exEnv exReq exDupDb)) ''p'') = Some (- 1)"
  by (simp add: model_defs example_defs)

section \<open>Failure of createOrder (C2)\<close>

text \<open>
  Claim C2, as the code has it: createOrder has no compensation step.  When it raises,
  the stored carts are unchanged.  When the error is anything but a rejected stock update
  or a rejected cart save (no identity, no cart, an empty cart, a failed stock check, a
  rejected order save), the whole database is unchanged, so no stock has moved.  When the
  cart save rejects, the order stays stored and every product's stock stays decremented
  by the quantities ordered.
\<close>

theorem createOrder_failure_effects:
  assumes fail: "createOrder e req d = (Inl err, d')"
  shows "carts d' = carts d \<and>
         (err \<noteq> PersistenceError ''Product.findByIdAndUpdate'' \<and> err \<noteq> PersistenceError ''cart.save''
            \<longrightarrow> d' = d) \<and>
         (err = PersistenceError ''cart.save'' \<longrightarrow>
            (\<exists>q c. buildQuery (r_user req) (r_sessionId req) = Some q \<and> findOneCart d q = Some c \<and>
               orders d' (newOrderId e) \<noteq> None \<and>
               (\<forall>k. products d' k =
                  map_option (\<lambda>p. p\<lparr>p_stock := p_stock p -
                       sum_list (map ci_quantity (filter (\<lambda>it. ci_product it = k) (c_items c)))\<rparr>)
                    (products d k))))"
proof (cases "buildQuery (r_user req) (r_sessionId req)")
  case None
  from createOrder_no_cart(1)[OF None, of e d] fail show ?thesis by auto
next
  case (Some q)
  show ?thesis
  proof (cases "findOneCart d q")
    case None
    from createOrder_no_cart(2)[OF Some None, of e] fail show ?thesis by auto
  next
    case c: (Some c)
    show ?thesis
    proof (cases "c_items c = []")
      case True
      from createOrder_no_cart(3)[OF Some c True, of e] fail show ?thesis by auto
    next
      case ne: False
      show ?thesis
      proof (cases "validateStock d (populate d (c_items c))")
        case (Some verr)
        from createOrder_not_validated[OF \<open>buildQuery (r_user req) (r_sessionId req) = Some q\<close> c ne Some, of e]
          fail validateStock_error[OF Some]
        show ?thesis by auto
      next
        case None
        have ex: "\<forall>it\<in>set (c_items c). products d (ci_product it) \<noteq> None"
          using validateStock_None[OF None] by auto
        note run = createOrder_validated[OF \<open>buildQuery (r_user req) (r_sessionId req) = Some q\<close> c ne None, of e]
        show ?thesis
        proof (cases "orderSaveFails e \<or> orders d (newOrderId e) \<noteq> None")
          case True
          with run fail show ?thesis by (auto simp: Let_def)
        next
          case ins: False
          obtain r ps where adj:
            "adjustStock (stockUpdateFailsAt e) (decrements (populate d (c_items c))) (products d) = (r, ps)"
            by (cases "adjustStock (stockUpdateFailsAt e) (decrements (populate d (c_items c))) (products d)")
          show ?thesis
          proof (cases r)
            case (Some serr)
            with adj have "serr = PersistenceError ''Product.findByIdAndUpdate''"
              by (auto dest: adjustStock_error)
            with run fail ins adj Some show ?thesis by (auto simp: Let_def)
          next
            case None
            with adj have ps: "ps = fold (\<lambda>x. incStock (fst x) (snd x)) (decrements (populate d (c_items c))) (products d)"
              by (auto dest: adjustStock_completed)
            have stock: "ps k = map_option (\<lambda>p. p\<lparr>p_stock := p_stock p -
                   sum_list (map ci_quantity (filter (\<lambda>it. ci_product it = k) (c_items c)))\<rparr>) (products d k)" for k
              by (simp add: ps fold_incStock_lookup decrements_sum[OF ex])
            from run fail ins adj None have
              "err = PersistenceError ''cart.save''"
              "d' = d\<lparr>orders := (orders d)(newOrderId e \<mapsto> newOrder req c (map (snapshot e d) (c_items c))), products := ps\<rparr>"
              by (auto simp: Let_def split: if_splits)
            with stock c \<open>buildQuery (r_user req) (r_sessionId req) = Some q\<close> show ?thesis
              by simp
          qed
        qed
      qed
    qed
  qed
qed

theorem createOrder_failure_effects_witness:
  "fst (createOrder (exEnv\<lparr>cartSaveFails := True\<rparr>) exReq exDb) = Inl (PersistenceError ''cart.save'') \<and>
   carts (snd (createOrder (exEnv\<lparr>cartSaveFails := True\<rparr>) exReq exDb)) = carts exDb \<and>
   map_option p_stock (products (snd (createOrder (exEnv\<lparr>cartSaveFails := True\<rparr>) exReq exDb)) ''p'') = Some 3 \<and>
   fst (createOrder (exEnv\<lparr>orderSaveFails := True\<rparr>) exReq exDb) = Inl (PersistenceError ''order.save'') \<and>
   snd (createOrder (exEnv\<lparr>orderSaveFails := True\<rparr>) exReq exDb) = exDb"
proof -
  have a: "fst (createOrder (exEnv\<lparr>cartSaveFails := True\<rparr>) exReq exDb) = Inl (PersistenceError ''cart.save'')"
    by (simp add: model_defs example_defs)
  then have a': "createOrder (exEnv\<lparr>cartSaveFails := True\<rparr>) exReq exDb =
      (Inl (PersistenceError ''cart.save''), snd (createOrder (exEnv\<lparr>cartSaveFails := True\<rparr>) exReq exDb))"
    by (simp add: prod_eq_iff)
  have b: "fst (createOrder (exEnv\<lparr>orderSaveFails := True\<rparr>) exReq exDb) = Inl (PersistenceError ''order.save'')"
    by (simp add: model_defs example_defs)
  then have b': "createOrder (exEnv\<lparr>orderSaveFails := True\<rparr>) exReq exDb =
      (Inl (PersistenceError ''order.save''), snd (createOrder (exEnv\<lparr>orderSaveFails := True\<rparr>) exReq exDb))"
    by (simp add: prod_eq_iff)
  have c: "findOneCart exDb (ByUser ''u1'') = Some exCart"
    by (simp add: findOneCart_def example_defs)
  from createOrder_failure_effects[OF a']
  have 1: "carts (snd (createOrder (exEnv\<lparr>cartSaveFails := True\<rparr>) exReq exDb)) = carts exDb"
    by blast
  from createOrder_failure_effects[OF a']
  obtain q' c' where q': "buildQuery (r_user exReq) (r_sessionId exReq) = Some q'"
    and c': "findOneCart exDb q' = Some c'"
    and stock: "\<And>k. products (snd (createOrder (exEnv\<lparr>cartSaveFails := True\<rparr>) exReq exDb)) k =
                  map_option (\<lambda>p. p\<lparr>p_stock := p_stock p -
                       sum_list (map ci_quantity (filter (\<lambda>it. ci_product it = k) (c_items c')))\<rparr>)
                    (products exDb k)"
    by blast
  from q' c' ex_query c have "c' = exCart" by simp
  then have 3: "map_option p_stock (products (snd (createOrder (exEnv\<lparr>cartSaveFails := True\<rparr>) exReq exDb)) ''p'') = Some 3"
    unfolding stock by (simp add: example_defs)
  from createOrder_failure_effects[OF b']
  have 2: "snd (createOrder (exEnv\<lparr>orderSaveFails := True\<rparr>) exReq exDb) = exDb"
    by simp
  from a b 1 2 3 show ?thesis by blast
qed

text \<open>
  The claim as written (a rejected cart save leaves every stock unchanged) fails: with
  the cart save rejecting, Alice's checkout raises and the pen's stock has gone from 5
  to 3.
\<close>

theorem createOrder_cart_save_rejected_counterexample:
  "fst (createOrder (exEnv\<lparr>cartSaveFails := True\<rparr>) exReq exDb) = Inl (PersistenceError ''cart.save'') \<and>
   map_option p_stock (products exDb ''p'') = Some 5 \<and>
   map_option p_stock (products (snd (createOrder (exEnv\<lparr>cartSaveFails := True\<rparr>) exReq exDb)) ''p'') = Some 3"
  by (simp add: model_defs example_defs)

section \<open>Insufficient stock (C3)\<close>

text \<open>
  Claim C3, as the code has it: when some line of the resolved cart asks for more than its
  product's current stock, createOrder fails with the 400 error "Not enough stock for ..."
  and the database (every product's stock, the cart) is unchanged.  The error is raised
  for a line of this cart: when that line's product exists, its stock is below the
  quantity asked for and the message ends in the product's name; when that line's product
  no longer exists, the message ends in "a product" and names no product.
\<close>

theorem createOrder_insufficient_stock:
  assumes q: "buildQuery (r_user req) (r_sessionId req) = Some q"
    and c: "findOneCart d q = Some c"
    and short: "\<exists>it\<in>set (c_items c). \<exists>p. products d (ci_product it) = Some p \<and> p_stock p < ci_quantity it"
  shows "\<exists>it\<in>set (c_items c). \<exists>label.
           createOrder e req d = (Inl (ApiError 400 (''Not enough stock for '' @ label)), d) \<and>
           (case products d (ci_product it) of
              None \<Rightarrow> label = ''a product''
            | Some p \<Rightarrow> p_stock p < ci_quantity it \<and> label = p_name p)"
proof -
  from short have ne: "c_items c \<noteq> []" by auto
  from validateStock_fail[OF short] obtain it label where
    it: "it \<in> set (c_items c)" and
    v: "validateStock d (populate d (c_items c)) = Some (ApiError 400 (''Not enough stock for '' @ label))" and
    l: "(case products d (ci_product it) of None \<Rightarrow> label = ''a product''
         | Some p \<Rightarrow> p_stock p < ci_quantity it \<and> label = p_name p)"
    by blast
  have "createOrder e req d = (Inl (ApiError 400 (''Not enough stock for '' @ label)), d)"
    using q c ne v by (simp add: createOrder_def Let_def)
  with it l show ?thesis by (intro bexI[of _ it] exI[of _ label]) simp_all
qed

theorem createOrder_insufficient_stock_witness:
  "findOneCart exShortDb (ByUser ''u1'') = Some exCart \<and>
   map_option p_stock (products exShortDb ''q'') = Some 0 \<and> ci_quantity exLineQuill = 1 \<and>
   createOrder exEnv exReq exShortDb = (Inl (ApiError 400 ''Not enough stock for Quill''), exShortDb)"
proof -
  have c: "findOneCart exShortDb (ByUser ''u1'') = Some exCart"
    by (simp add: findOneCart_def example_defs)
  have short: "\<exists>it\<in>set (c_items exCart). \<exists>p. products exShortDb (ci_product it) = Some p \<and> p_stock p < ci_quantity it"
    by (simp add: example_defs)
  from createOrder_insufficient_stock[OF ex_query c short, of exEnv]
  obtain it label where it: "it \<in> set (c_items exCart)"
    and run: "createOrder exEnv exReq exShortDb = (Inl (ApiError 400 (''Not enough stock for '' @ label)), exShortDb)"
    and l: "(case products exShortDb (ci_product it) of None \<Rightarrow> label = ''a product''
             | Some p \<Rightarrow> p_stock p < ci_quantity it \<and> label = p_name p)"
    by blast
  from it have "it = exLinePen \<or> it = exLineQuill" by (simp add: exCart_def)
  with l have "label = ''Quill''"
    by (auto simp: example_defs)
  with run c show ?thesis by (simp add: example_defs)
qed

text \<open>
  The claim as written (the error names the offending product) fails when a line for a
  deleted product comes before the line that is short of stock: the quill is sold out
  and one is asked for, yet the error raised is the one for the deleted product's line
  and names no product.
\<close>

theorem createOrder_missing_product_counterexample:
  "findOneCart exGoneDb (ByUser ''u1'') = Some exGoneCart \<and>
   c_items exGoneCart = [exGoneLine, exLinePen, exLineQuill] \<and>
   products exGoneDb (ci_product exGoneLine) = None \<and>
   map_option p_stock (products exGoneDb (ci_product exLineQuill)) = Some 0 \<and>
   ci_quantity exLineQuill = 1 \<and>
   createOrder exEnv exReq exGoneDb =
     (Inl (ApiError 400 ''Not enough stock for a product''), exGoneDb)"
  by (simp add: model_defs example_defs)

section \<open>Successful checkout (C4)\<close>

text \<open>
  Claim C4: for a resolved, non-empty cart all of whose lines have sufficient stock, and
  with no write rejected, createOrder succeeds; each product's stock goes down by exactly
  the quantity ordered of it (the sum over the cart's lines for that product); the order
  carries the cart's five cached totals as they are; the order is stored; and the stored
  cart has no items, no coupons and five totals of zero.
\<close>

theorem createOrder_sufficient_stock:
  assumes q: "buildQuery (r_user req) (r_sessionId req) = Some q"
    and c: "findOneCart d q = Some c"
    and ne: "c_items c \<noteq> []"
    and suff: "\<forall>it\<in>set (c_items c). \<exists>p. products d (ci_product it) = Some p \<and> ci_quantity it \<le> p_stock p"
    and env: "\<not> orderSaveFails e" "orders d (newOrderId e) = None"
             "stockUpdateFailsAt e = None" "\<not> cartSaveFails e"
  shows "\<exists>ord d'. createOrder e req d = (Inr ord, d') \<and>
           (\<forall>k. products d' k =
                  map_option (\<lambda>p. p\<lparr>p_stock := p_stock p -
                       sum_list (map ci_quantity (filter (\<lambda>it. ci_product it = k) (c_items c)))\<rparr>)
                    (products d k)) \<and>
           o_subtotal ord = c_subtotal c \<and> o_discountTotal ord = c_discountTotal c \<and>
           o_taxTotal ord = c_taxTotal c \<and> o_shippingTotal ord = c_shippingTotal c \<and>
           o_grandTotal ord = c_grandTotal c \<and>
           orders d' (newOrderId e) = Some ord \<and>
           findOneCart d' q =
             Some (c\<lparr>c_items := [], c_appliedCoupons := [], c_subtotal := 0, c_discountTotal := 0,
                     c_taxTotal := 0, c_shippingTotal := 0, c_grandTotal := 0\<rparr>)"
proof -
  have ex: "\<forall>it\<in>set (c_items c). products d (ci_product it) \<noteq> None"
    using suff by auto
  note shape = createOrder_success_shape[OF q c ne suff env]
  have stock: "fold (\<lambda>x. incStock (fst x) (snd x)) (decrements (populate d (c_items c))) (products d) k =
      map_option (\<lambda>p. p\<lparr>p_stock := p_stock p -
           sum_list (map ci_quantity (filter (\<lambda>it. ci_product it = k) (c_items c)))\<rparr>) (products d k)" for k
    by (simp add: fold_incStock_lookup decrements_sum[OF ex])
  have cart: "find (matchesQuery q) (map (\<lambda>x. if c_id x = c_id c then clearedCart c else x) (carts d))
      = Some (c\<lparr>c_items := [], c_appliedCoupons := [], c_subtotal := 0, c_discountTotal := 0,
                     c_taxTotal := 0, c_shippingTotal := 0, c_grandTotal := 0\<rparr>)"
    using findOneCart_after_clear[OF c] by (simp add: clearedCart_def)
  show ?thesis
    unfolding shape
    apply (intro exI conjI)
            apply (rule refl)
           apply (simp add: stock)
          apply (simp_all add: newOrder_def findOneCart_def cart)
    done
qed

theorem createOrder_sufficient_stock_witness:
  "\<exists>ord d'. createOrder exEnv exReq exDb = (Inr ord, d') \<and>
     map_option p_stock (products exDb ''p'') = Some 5 \<and>
     map_option p_stock (products d' ''p'') = Some 3 \<and>
     map_option p_stock (products exDb ''q'') = Some 1 \<and>
     map_option p_stock (products d' ''q'') = Some 0 \<and>
     o_grandTotal ord = 40 \<and>
     map_option c_items (findOneCart d' (ByUser ''u1'')) = Some [] \<and>
     map_option c_grandTotal (findOneCart d' (ByUser ''u1'')) = Some 0"
proof -
  have c: "findOneCart exDb (ByUser ''u1'') = Some exCart"
    by (simp add: findOneCart_def example_defs)
  have ne: "c_items exCart \<noteq> []" by (simp add: exCart_def)
  have suff: "\<forall>it\<in>set (c_items exCart). \<exists>p. products exDb (ci_product it) = Some p \<and> ci_quantity it \<le> p_stock p"
    by (simp add: example_defs)
  have env: "\<not> orderSaveFails exEnv" "orders exDb (newOrderId exEnv) = None"
    "stockUpdateFailsAt exEnv = None" "\<not> cartSaveFails exEnv"
    by (simp_all add: example_defs)
  from createOrder_sufficient_stock[OF ex_query c ne suff env]
  obtain ord d' where run: "createOrder exEnv exReq exDb = (Inr ord, d')"
    and stock: "\<And>k. products d' k = map_option (\<lambda>p. p\<lparr>p_stock := p_stock p -
                       sum_list (map ci_quantity (filter (\<lambda>it. ci_product it = k) (c_items exCart)))\<rparr>)
                    (products exDb k)"
    and total: "o_grandTotal ord = c_grandTotal exCart"
    and cart: "findOneCart d' (ByUser ''u1'') =
             Some (exCart\<lparr>c_items := [], c_appliedCoupons := [], c_subtotal := 0, c_discountTotal := 0,
                     c_taxTotal := 0, c_shippingTotal := 0, c_grandTotal := 0\<rparr>)"
    by blast
  have "map_option p_stock (products d' ''p'') = Some 3"
    unfolding stock by (simp add: example_defs)
  moreover have "map_option p_stock (products d' ''q'') = Some 0"
    unfolding stock by (simp add: example_defs)
  moreover have "o_grandTotal ord = 40"
    using total by (simp add: exCart_def)
  moreover have "map_option p_stock (products exDb ''p'') = Some 5"
    "map_option p_stock (products exDb ''q'') = Some 1"
    by (simp_all add: example_defs)
  ultimately show ?thesis
    using run cart by (intro exI[of _ ord] exI[of _ d']) simp
qed

section \<open>Cancellation (C5)\<close>

text \<open>
  Claim C5: for an existing order and an authorised requester, with no write rejected:
  when the status is pending or processing, cancelOrder sets the status to cancelled,
  appends the history entry, stores the order, and raises each product's stock by exactly
  the quantity of the order's lines for it; cancelling again then fails with the 400 error
  "This order cannot be cancelled" and changes nothing.  When the status is anything else,
  cancelOrder fails with that error and changes nothing.
\<close>

theorem cancelOrder_contract:
  assumes ord: "orders d (cr_id req) = Some ord" and u: "cr_user req = Some u"
    and auth: "\<not> notAuthorized u ord"
    and env: "\<not> orderSaveFails e" "stockUpdateFailsAt e = None"
  shows "(o_status ord = ''pending'' \<or> o_status ord = ''processing'' \<longrightarrow>
           (\<exists>ord' d'. cancelOrder e req d = (Inr ord', d') \<and>
              o_status ord' = ''cancelled'' \<and>
              o_statusHistory ord' = o_statusHistory ord @
                 [\<lparr>h_status = ''cancelled'',
                   h_note = (if truthy (cr_reason req) then the (cr_reason req)
                             else ''Order cancelled by user'')\<rparr>] \<and>
              orders d' (cr_id req) = Some ord' \<and>
              (\<forall>k. products d' k =
                  map_option (\<lambda>p. p\<lparr>p_stock := p_stock p +
                       sum_list (map oi_quantity (filter (\<lambda>it. oi_product it = k) (o_items ord)))\<rparr>)
                    (products d k)) \<and>
              cancelOrder e req d' = (Inl (ApiError 400 ''This order cannot be cancelled''), d'))) \<and>
         (o_status ord \<noteq> ''pending'' \<and> o_status ord \<noteq> ''processing'' \<longrightarrow>
            cancelOrder e req d = (Inl (ApiError 400 ''This order cannot be cancelled''), d))"
proof (intro conjI impI)
  assume st: "o_status ord = ''pending'' \<or> o_status ord = ''processing''"
  define ord' where "ord' = ord\<lparr>o_status := ''cancelled'',
               o_statusHistory := o_statusHistory ord @
                 [\<lparr>h_status = ''cancelled'', h_note = orElse (cr_reason req) ''Order cancelled by user''\<rparr>]\<rparr>"
  define d' where "d' = d\<lparr>orders := (orders d)(cr_id req \<mapsto> ord'),
        products := fold (\<lambda>x. incStock (fst x) (snd x)) (restores (o_items ord)) (products d)\<rparr>"
  have run: "cancelOrder e req d = (Inr ord', d')"
    unfolding ord'_def d'_def by (rule cancelOrder_accepted[OF ord u auth st env])
  have o': "orders d' (cr_id req) = Some ord'"
    by (simp add: d'_def)
  have auth': "\<not> notAuthorized u ord'"
    using auth by (simp add: notAuthorized_def ord'_def)
  have again: "cancelOrder e req d' = (Inl (ApiError 400 ''This order cannot be cancelled''), d')"
    by (rule cancelOrder_rejected[OF o' u auth']) (simp_all add: ord'_def)
  have stock: "products d' k =
      map_option (\<lambda>p. p\<lparr>p_stock := p_stock p +
           sum_list (map oi_quantity (filter (\<lambda>it. oi_product it = k) (o_items ord)))\<rparr>) (products d k)" for k
    by (simp add: d'_def fold_incStock_lookup restores_sum)
  show "\<exists>ord' d'. cancelOrder e req d = (Inr ord', d') \<and>
              o_status ord' = ''cancelled'' \<and>
              o_statusHistory ord' = o_statusHistory ord @
                 [\<lparr>h_status = ''cancelled'',
                   h_note = (if truthy (cr_reason req) then the (cr_reason req)
                             else ''Order cancelled by user'')\<rparr>] \<and>
              orders d' (cr_id req) = Some ord' \<and>
              (\<forall>k. products d' k =
                  map_option (\<lambda>p. p\<lparr>p_stock := p_stock p +
                       sum_list (map oi_quantity (filter (\<lambda>it. oi_product it = k) (o_items ord)))\<rparr>)
                    (products d k)) \<and>
              cancelOrder e req d' = (Inl (ApiError 400 ''This order cannot be cancelled''), d')"
    using run o' again stock
    by (intro exI[of _ ord'] exI[of _ d'] conjI allI) (simp_all add: ord'_def orElse_def)
next
  assume "o_status ord \<noteq> ''pending'' \<and> o_status ord \<noteq> ''processing''"
  then show "cancelOrder e req d = (Inl (ApiError 400 ''This order cannot be cancelled''), d)"
    using cancelOrder_rejected[OF ord u auth] by simp
qed

theorem cancelOrder_contract_witness:
  "o_status exOrder = ''pending'' \<and>
   (\<exists>ord' d'. cancelOrder exEnv (exCancelReq exAlice) (exPlacedDb exOrder) = (Inr ord', d') \<and>
      o_status ord' = ''cancelled'' \<and>
      map_option p_stock (products (exPlacedDb exOrder) ''p'') = Some 3 \<and>
      map_option p_stock (products d' ''p'') = Some 5 \<and>
      map_option p_stock (products (exPlacedDb exOrder) ''q'') = Some 0 \<and>
      map_option p_stock (products d' ''q'') = Some 1 \<and>
      cancelOrder exEnv (exCancelReq exAlice) d' = (Inl (ApiError 400 ''This order cannot be cancelled''), d')) \<and>
   o_status exShipped = ''shipped'' \<and>
   cancelOrder exEnv (exCancelReq exAlice) (exPlacedDb exShipped) =
     (Inl (ApiError 400 ''This order cannot be cancelled''), exPlacedDb exShipped)"
proof -
  have u: "cr_user (exCancelReq exAlice) = Some exAlice" by (simp add: exCancelReq_def)
  have env: "\<not> orderSaveFails exEnv" "stockUpdateFailsAt exEnv = None"
    by (simp_all add: exEnv_def)
  have o1: "orders (exPlacedDb exOrder) (cr_id (exCancelReq exAlice)) = Some exOrder"
    by (simp add: exPlacedDb_def exCancelReq_def)
  have a1: "\<not> notAuthorized exAlice exOrder"
    by (simp add: notAuthorized_def exAlice_def exOrder_def)
  have s1: "o_status exOrder = ''pending''" by (simp add: exOrder_def)
  have o2: "orders (exPlacedDb exShipped) (cr_id (exCancelReq exAlice)) = Some exShipped"
    by (simp add: exPlacedDb_def exCancelReq_def)
  have a2: "\<not> notAuthorized exAlice exShipped"
    by (simp add: notAuthorized_def exAlice_def exOrder_def exShipped_def)
  have s2: "o_status exShipped = ''shipped''" by (simp add: exShipped_def)
  from cancelOrder_contract[OF o1 u a1 env] s1
  obtain ord' d' where run: "cancelOrder exEnv (exCancelReq exAlice) (exPlacedDb exOrder) = (Inr ord', d')"
    and st: "o_status ord' = ''cancelled''"
    and stock: "\<And>k. products d' k =
                  map_option (\<lambda>p. p\<lparr>p_stock := p_stock p +
                       sum_list (map oi_quantity (filter (\<lambda>it. oi_product it = k) (o_items exOrder)))\<rparr>)
                    (products (exPlacedDb exOrder) k)"
    and again: "cancelOrder exEnv (exCancelReq exAlice) d' = (Inl (ApiError 400 ''This order cannot be cancelled''), d')"
    by blast
  have p: "map_option p_stock (products d' ''p'') = Some 5"
    unfolding stock by (simp add: example_defs)
  have q: "map_option p_stock (products d' ''q'') = Some 1"
    unfolding stock by (simp add: example_defs)
  have before: "map_option p_stock (products (exPlacedDb exOrder) ''p'') = Some 3"
    "map_option p_stock (products (exPlacedDb exOrder) ''q'') = Some 0"
    by (simp_all add: example_defs)
  from cancelOrder_contract[OF o2 u a2 env] s2
  have rej: "cancelOrder exEnv (exCancelReq exAlice) (exPlacedDb exShipped) =
     (Inl (ApiError 400 ''This order cannot be cancelled''), exPlacedDb exShipped)"
    by simp
  have "\<exists>ord' d'. cancelOrder exEnv (exCancelReq exAlice) (exPlacedDb exOrder) = (Inr ord', d') \<and>
      o_status ord' = ''cancelled'' \<and>
      map_option p_stock (products (exPlacedDb exOrder) ''p'') = Some 3 \<and>
      map_option p_stock (products d' ''p'') = Some 5 \<and>
      map_option p_stock (products (exPlacedDb exOrder) ''q'') = Some 0 \<and>
      map_option p_stock (products d' ''q'') = Some 1 \<and>
      cancelOrder exEnv (exCancelReq exAlice) d' = (Inl (ApiError 400 ''This order cannot be cancelled''), d')"
    using run st p q before again by (intro exI[of _ ord'] exI[of _ d']) simp
  with s1 s2 rej show ?thesis by blast
qed

section \<open>Status updates (C6)\<close>

text \<open>
  Claim C6, as the code has it: updateOrderStatus has no guard on the current status.
  On every existing order, a cancelled one included, it sets the status to the new
  status, appends the history entry and stores the order; the note of the entry is the
  given note when that is a non-empty string, and "Status updated to <newStatus>"
  otherwise.
\<close>

theorem updateOrderStatus_any_status:
  assumes "orders d i = Some ord" and "\<not> orderSaveFails e"
  shows "updateOrderStatus e i status note d =
     (Inr (ord\<lparr>o_status := status,
               o_statusHistory := o_statusHistory ord @
                 [\<lparr>h_status = status,
                   h_note = (case note of
                               None \<Rightarrow> ''Status updated to '' @ status
                             | Some n \<Rightarrow> if n = [] then ''Status updated to '' @ status else n)\<rparr>]\<rparr>),
      d\<lparr>orders := (orders d)(i \<mapsto> ord\<lparr>o_status := status,
               o_statusHistory := o_statusHistory ord @
                 [\<lparr>h_status = status,
                   h_note = (case note of
                               None \<Rightarrow> ''Status updated to '' @ status
                             | Some n \<Rightarrow> if n = [] then ''Status updated to '' @ status else n)\<rparr>]\<rparr>)\<rparr>)"
  using assms
  by (cases "note") (simp_all add: updateOrderStatus_def saveOrder_def orElse_def truthy_def Let_def)

theorem updateOrderStatus_any_status_witness:
  "orders (exPlacedDb exCancelled) ''o1'' = Some exCancelled \<and> o_status exCancelled = ''cancelled'' \<and>
   fst (updateOrderStatus exEnv ''o1'' ''processing'' (Some ''packed'') (exPlacedDb exCancelled)) =
     Inr (exCancelled\<lparr>o_status := ''processing'',
            o_statusHistory := o_statusHistory exCancelled @
              [\<lparr>h_status = ''processing'', h_note = ''packed''\<rparr>]\<rparr>)"
proof -
  have o: "orders (exPlacedDb exCancelled) ''o1'' = Some exCancelled"
    by (simp add: exPlacedDb_def)
  have e: "\<not> orderSaveFails exEnv" by (simp add: exEnv_def)
  have s: "o_status exCancelled = ''cancelled''" by (simp add: exCancelled_def)
  from updateOrderStatus_any_status[OF o e, of "''processing''" "Some ''packed''"] o s
  show ?thesis by simp
qed

text \<open>
  The claim as written fails on a cancelled order: the update to shipped succeeds, and an
  empty note is replaced by the default note.
\<close>

theorem updateOrderStatus_cancelled_counterexample:
  "o_status exCancelled = ''cancelled'' \<and>
   fst (updateOrderStatus exEnv ''o1'' ''shipped'' (Some '''') (exPlacedDb exCancelled)) =
     Inr (exCancelled\<lparr>o_status := ''shipped'',
            o_statusHistory := o_statusHistory exCancelled @
              [\<lparr>h_status = ''shipped'', h_note = ''Status updated to shipped''\<rparr>]\<rparr>)"
  by (simp add: model_defs example_defs)

section \<open>Empty carts and saved-for-later lines (C7)\<close>

text \<open>
  Claim C7, as the code has it: createOrder fails with "Cart is empty" exactly when the
  caller's identity resolves to no cart or to a cart with no line items at all; the
  saved-for-later flag is never read.  On success every line of the cart, flagged or not,
  has passed the stock check, has become an order line, and has been subtracted from its
  product's stock.
\<close>

theorem createOrder_empty_cart_iff:
  "((fst (createOrder e req d) = Inl (ApiError 400 ''Cart is empty'')) =
      (\<exists>q. buildQuery (r_user req) (r_sessionId req) = Some q \<and>
           (case findOneCart d q of None \<Rightarrow> True | Some c \<Rightarrow> c_items c = []))) \<and>
   (\<forall>ord d' q c.
      createOrder e req d = (Inr ord, d') \<and>
      buildQuery (r_user req) (r_sessionId req) = Some q \<and> findOneCart d q = Some c \<longrightarrow>
        (\<forall>it\<in>set (c_items c). \<exists>p. products d (ci_product it) = Some p \<and> ci_quantity it \<le> p_stock p) \<and>
        map oi_product (o_items ord) = map ci_product (c_items c) \<and>
        map oi_quantity (o_items ord) = map ci_quantity (c_items c) \<and>
        (\<forall>k. products d' k =
           map_option (\<lambda>p. p\<lparr>p_stock := p_stock p -
                sum_list (map ci_quantity (filter (\<lambda>it. ci_product it = k) (c_items c)))\<rparr>)
             (products d k)))"
proof (intro conjI allI impI; (elim conjE)?)
  show "(fst (createOrder e req d) = Inl (ApiError 400 ''Cart is empty'')) =
      (\<exists>q. buildQuery (r_user req) (r_sessionId req) = Some q \<and>
           (case findOneCart d q of None \<Rightarrow> True | Some c \<Rightarrow> c_items c = []))"
    by (rule cart_is_empty_iff)
next
  fix ord d' q c
  assume ok: "createOrder e req d = (Inr ord, d')"
    and q: "buildQuery (r_user req) (r_sessionId req) = Some q" and c: "findOneCart d q = Some c"
  from createOrder_success_order[OF ok q c]
  have o: "ord = newOrder req c (map (snapshot e d) (c_items c))"
    and v: "validateStock d (populate d (c_items c)) = None" by simp_all
  from validateStock_None[OF v]
  show "\<forall>it\<in>set (c_items c). \<exists>p. products d (ci_product it) = Some p \<and> ci_quantity it \<le> p_stock p" .
  from o show "map oi_product (o_items ord) = map ci_product (c_items c)"
    by (simp add: newOrder_def comp_def)
  from o show "map oi_quantity (o_items ord) = map ci_quantity (c_items c)"
    by (simp add: newOrder_def comp_def)
  fix k
  from createOrder_success_stock[OF ok q c]
  show "products d' k =
           map_option (\<lambda>p. p\<lparr>p_stock := p_stock p -
                sum_list (map ci_quantity (filter (\<lambda>it. ci_product it = k) (c_items c)))\<rparr>)
             (products d k)" .
qed

theorem createOrder_empty_cart_iff_witness:
  "fst (createOrder exEnv exReq (exPlacedDb exOrder)) = Inl (ApiError 400 ''Cart is empty'') \<and>
   list_all ci_savedForLater (c_items exSavedCart) \<and>
   fst (createOrder exEnv exReq exSavedDb) \<noteq> Inl (ApiError 400 ''Cart is empty'') \<and>
   (\<exists>ord d'. createOrder exEnv exReq exSavedDb = (Inr ord, d') \<and>
      map oi_product (o_items ord) = [''p''] \<and> map oi_quantity (o_items ord) = [2] \<and>
      map_option p_stock (products exSavedDb ''p'') = Some 5 \<and>
      map_option p_stock (products d' ''p'') = Some 3)"
proof -
  have c: "findOneCart exSavedDb (ByUser ''u1'') = Some exSavedCart"
    by (simp add: findOneCart_def example_defs)
  have flagged: "list_all ci_savedForLater (c_items exSavedCart)"
    by (simp add: example_defs)
  have before: "map_option p_stock (products exSavedDb ''p'') = Some 5"
    by (simp add: example_defs)
  have empty: "fst (createOrder exEnv exReq (exPlacedDb exOrder)) = Inl (ApiError 400 ''Cart is empty'')"
    using createOrder_empty_cart_iff[THEN conjunct1, of exEnv exReq "exPlacedDb exOrder"]
    by (simp add: buildQuery_def findOneCart_def clearedCart_def example_defs)
  have accepted: "fst (createOrder exEnv exReq exSavedDb) \<noteq> Inl (ApiError 400 ''Cart is empty'')"
    using createOrder_empty_cart_iff[THEN conjunct1, of exEnv exReq exSavedDb]
    by (simp add: buildQuery_def findOneCart_def example_defs)
  have "\<not> isl (fst (createOrder exEnv exReq exSavedDb))"
    by (simp add: model_defs example_defs)
  then obtain ord where "fst (createOrder exEnv exReq exSavedDb) = Inr ord"
    by (cases "fst (createOrder exEnv exReq exSavedDb)") simp_all
  then have run: "createOrder exEnv exReq exSavedDb = (Inr ord, snd (createOrder exEnv exReq exSavedDb))"
    by (simp add: prod_eq_iff)
  from createOrder_empty_cart_iff[THEN conjunct2, rule_format, of exEnv exReq exSavedDb ord
      "snd (createOrder exEnv exReq exSavedDb)" "ByUser ''u1''" exSavedCart] run ex_query c
  have lines: "map oi_product (o_items ord) = map ci_product (c_items exSavedCart)"
    and qtys: "map oi_quantity (o_items ord) = map ci_quantity (c_items exSavedCart)"
    and stock: "\<And>k. products (snd (createOrder exEnv exReq exSavedDb)) k =
           map_option (\<lambda>p. p\<lparr>p_stock := p_stock p -
                sum_list (map ci_quantity (filter (\<lambda>it. ci_product it = k) (c_items exSavedCart)))\<rparr>)
             (products exSavedDb k)"
    by blast+
  have after: "map_option p_stock (products (snd (createOrder exEnv exReq exSavedDb)) ''p'') = Some 3"
    unfolding stock by (simp add: example_defs)
  have "map oi_product (o_items ord) = [''p'']" "map oi_quantity (o_items ord) = [2]"
    using lines qtys by (simp_all add: example_defs)
  with run before after
  have "\<exists>ord d'. createOrder exEnv exReq exSavedDb = (Inr ord, d') \<and>
      map oi_product (o_items ord) = [''p''] \<and> map oi_quantity (o_items ord) = [2] \<and>
      map_option p_stock (products exSavedDb ''p'') = Some 5 \<and>
      map_option p_stock (products d' ''p'') = Some 3"
    by (intro exI[of _ ord] exI[of _ "snd (createOrder exEnv exReq exSavedDb)"]) simp
  with empty flagged accepted show ?thesis by blast
qed

text \<open>
  The claim as written fails on a cart whose only line is saved for later: the order is
  created with that line and the pen's stock goes from 5 to 3.
\<close>

theorem createOrder_saved_for_later_counterexample:
  "list_all ci_savedForLater (c_items exSavedCart) \<and>
   findOneCart exSavedDb (ByUser ''u1'') = Some exSavedCart \<and>
   map_sum id (map oi_product \<circ> o_items) (fst (createOrder exEnv exReq exSavedDb)) = Inr [''p''] \<and>
   map_option p_stock (products exSavedDb ''p'') = Some 5 \<and>
   map_option p_stock (products (snd (createOrder exEnv exReq exSavedDb)) ''p'') = Some 3"
  by (simp add: model_defs example_defs)

section \<open>Order lines (C8)\<close>




section \<open>Who may cancel (C9)\<close>

text \<open>
  Claim C9, as the code has it: for a requester who is not an administrator, cancelOrder
  fails with the 403 error exactly when the order has an owning user and that user is not
  the requester; the database is then unchanged.  An order without an owning user (guest
  checkout) is not protected by this test.
\<close>

theorem cancelOrder_forbidden:
  assumes "orders d (cr_id req) = Some ord" and "cr_user req = Some u" and "u_role u \<noteq> ''admin''"
  shows "(fst (cancelOrder e req d) = Inl (ApiError 403 ''You are not authorized to cancel this order''))
           = (\<exists>owner. o_user ord = Some owner \<and> owner \<noteq> u_id u) \<and>
         ((\<exists>owner. o_user ord = Some owner \<and> owner \<noteq> u_id u) \<longrightarrow>
            cancelOrder e req d = (Inl (ApiError 403 ''You are not authorized to cancel this order''), d))"
proof (cases "\<exists>owner. o_user ord = Some owner \<and> owner \<noteq> u_id u")
  case True
  then have "notAuthorized u ord"
    using assms(3) by (auto simp: notAuthorized_def)
  then have "cancelOrder e req d = (Inl (ApiError 403 ''You are not authorized to cancel this order''), d)"
    using assms(1,2) by (simp add: cancelOrder_def)
  with True show ?thesis by simp
next
  case False
  then have na: "\<not> notAuthorized u ord"
    by (cases "o_user ord") (auto simp: notAuthorized_def)
  have "fst (cancelOrder e req d) \<noteq> Inl (ApiError 403 ''You are not authorized to cancel this order'')"
    using assms(1,2) na
    by (auto simp: cancelOrder_def Let_def saveOrder_def
        split: option.splits prod.splits sum.splits dest: adjustStock_error)
  with False show ?thesis by blast
qed

theorem cancelOrder_forbidden_witness:
  "cancelOrder exEnv (exCancelReq exBob) (exPlacedDb exOrder) =
     (Inl (ApiError 403 ''You are not authorized to cancel this order''), exPlacedDb exOrder) \<and>
   fst (cancelOrder exEnv (exCancelReq exBob) (exPlacedDb exGuestOrder)) \<noteq>
     Inl (ApiError 403 ''You are not authorized to cancel this order'')"
proof -
  have u: "cr_user (exCancelReq exBob) = Some exBob" by (simp add: exCancelReq_def)
  have r: "u_role exBob \<noteq> ''admin''" by (simp add: exBob_def)
  have o1: "orders (exPlacedDb exOrder) (cr_id (exCancelReq exBob)) = Some exOrder"
    by (simp add: exPlacedDb_def exCancelReq_def)
  have o2: "orders (exPlacedDb exGuestOrder) (cr_id (exCancelReq exBob)) = Some exGuestOrder"
    by (simp add: exPlacedDb_def exCancelReq_def)
  have own: "\<exists>owner. o_user exOrder = Some owner \<and> owner \<noteq> u_id exBob"
    by (simp add: exOrder_def exBob_def)
  have guest: "\<not> (\<exists>owner. o_user exGuestOrder = Some owner \<and> owner \<noteq> u_id exBob)"
    by (simp add: exGuestOrder_def)
  from cancelOrder_forbidden[OF o1 u r, of exEnv] own
  have 1: "cancelOrder exEnv (exCancelReq exBob) (exPlacedDb exOrder) =
     (Inl (ApiError 403 ''You are not authorized to cancel this order''), exPlacedDb exOrder)"
    by blast
  from cancelOrder_forbidden[OF o2 u r, of exEnv] guest
  have 2: "fst (cancelOrder exEnv (exCancelReq exBob) (exPlacedDb exGuestOrder)) \<noteq>
     Inl (ApiError 403 ''You are not authorized to cancel this order'')"
    by blast
  from 1 2 show ?thesis by blast
qed

text \<open>
  The claim as written fails on a guest order: Bob, a customer, cancels it, and the stock
  is restored.
\<close>

theorem cancelOrder_guest_order_counterexample:
  "o_user exGuestOrder = None \<and> u_role exBob \<noteq> ''admin'' \<and>
   fst (cancelOrder exEnv (exCancelReq exBob) (exPlacedDb exGuestOrder)) =
     Inr (exGuestOrder\<lparr>o_status := ''cancelled'',
            o_statusHistory := o_statusHistory exGuestOrder @
              [\<lparr>h_status = ''cancelled'', h_note = ''Order cancelled by user''\<rparr>]\<rparr>) \<and>
   map_option p_stock (products (exPlacedDb exGuestOrder) ''p'') = Some 3 \<and>
   map_option p_stock (products (snd (cancelOrder exEnv (exCancelReq exBob) (exPlacedDb exGuestOrder))) ''p'') = Some 5"
  by (simp add: model_defs example_defs)

section \<open>The stale index of updateCartItem (C10)\<close>

text \<open>
  Claim C10: when updateCartItem receives a quantity of 0 or less together with a
  savedForLater value for an item of the cart, the item named by itemId (at the index
  found) is removed first and the flag is then written through that index.  When the item
  was the last of the list, that access is out of bounds and the call raises a TypeError
  with nothing saved; otherwise the flag lands on the line that followed the removed one.
\<close>

theorem updateCartItem_stale_index:
  assumes q: "buildQuery (ur_user req) (ur_sessionId req) = Some q"
    and c: "findOneCart d q = Some c"
    and i: "findIndex (\<lambda>it. ci_id it = ur_itemId req) (c_items c) = Some i"
    and n: "ur_quantity req = Some n" "n \<le> 0"
    and b: "ur_savedForLater req = Some b"
  shows "i < length (c_items c) \<and> ci_id (c_items c ! i) = ur_itemId req \<and>
         (Suc i = length (c_items c) \<longrightarrow> updateCartItem recalc e req d = (Inl TypeError, d)) \<and>
         (Suc i < length (c_items c) \<longrightarrow> \<not> cartSaveFails e \<longrightarrow>
            fst (updateCartItem recalc e req d) =
              Inr (recalc (c\<lparr>c_items := take i (c_items c) @
                                (c_items c ! Suc i)\<lparr>ci_savedForLater := b\<rparr> #
                                drop (Suc (Suc i)) (c_items c)\<rparr>)))"
proof (intro conjI impI)
  from findIndex_Some[OF i] show "i < length (c_items c)" and "ci_id (c_items c ! i) = ur_itemId req"
    by simp_all
next
  assume last: "Suc i = length (c_items c)"
  have "applyQuantity d i (ur_quantity req) (c_items c) = Inr (splice1 i (c_items c))"
    using n by (simp add: applyQuantity_def)
  moreover have "applySavedForLater i (ur_savedForLater req) (splice1 i (c_items c)) = Inl TypeError"
    using b splice1_last[OF last] by (simp add: applySavedForLater_def)
  ultimately show "updateCartItem recalc e req d = (Inl TypeError, d)"
    using q c i by (simp add: updateCartItem_def)
next
  assume inner: "Suc i < length (c_items c)" and save: "\<not> cartSaveFails e"
  have aq: "applyQuantity d i (ur_quantity req) (c_items c) = Inr (splice1 i (c_items c))"
    using n by (simp add: applyQuantity_def)
  have len: "i < length (splice1 i (c_items c))"
    using inner by (simp add: splice1_def)
  have "applySavedForLater i (ur_savedForLater req) (splice1 i (c_items c)) =
          Inr ((splice1 i (c_items c))[i := (splice1 i (c_items c) ! i)\<lparr>ci_savedForLater := b\<rparr>])"
    using b len by (simp add: applySavedForLater_def)
  also have "\<dots> = Inr (take i (c_items c) @ (c_items c ! Suc i)\<lparr>ci_savedForLater := b\<rparr> #
                        drop (Suc (Suc i)) (c_items c))"
    using splice1_inner[OF inner, of "\<lambda>it. it\<lparr>ci_savedForLater := b\<rparr>"] by simp
  finally have sf: "applySavedForLater i (ur_savedForLater req) (splice1 i (c_items c)) =
      Inr (take i (c_items c) @ (c_items c ! Suc i)\<lparr>ci_savedForLater := b\<rparr> #
                        drop (Suc (Suc i)) (c_items c))" .
  show "fst (updateCartItem recalc e req d) =
              Inr (recalc (c\<lparr>c_items := take i (c_items c) @
                                (c_items c ! Suc i)\<lparr>ci_savedForLater := b\<rparr> #
                                drop (Suc (Suc i)) (c_items c)\<rparr>))"
    using q c i aq sf save by (simp add: updateCartItem_def saveCart_def Let_def)
qed

theorem updateCartItem_stale_index_witness:
  "updateCartItem (\<lambda>c. c) exEnv (exUpdateReq ''i2'') exDb = (Inl TypeError, exDb) \<and>
   ci_id (c_items exCart ! 0) = ''i1'' \<and>
   fst (updateCartItem (\<lambda>c. c) exEnv (exUpdateReq ''i1'') exDb) =
     Inr (exCart\<lparr>c_items := [exLineQuill\<lparr>ci_savedForLater := True\<rparr>]\<rparr>)"
proof -
  have q: "buildQuery (ur_user (exUpdateReq i)) (ur_sessionId (exUpdateReq i)) = Some (ByUser ''u1'')" for i
    by (simp add: buildQuery_def exUpdateReq_def exAlice_def)
  have c: "findOneCart exDb (ByUser ''u1'') = Some exCart"
    by (simp add: findOneCart_def example_defs)
  have i2: "findIndex (\<lambda>it. ci_id it = ur_itemId (exUpdateReq ''i2'')) (c_items exCart) = Some 1"
    by (simp add: exUpdateReq_def exCart_def exLinePen_def exLineQuill_def)
  have i1: "findIndex (\<lambda>it. ci_id it = ur_itemId (exUpdateReq ''i1'')) (c_items exCart) = Some 0"
    by (simp add: exUpdateReq_def exCart_def exLinePen_def exLineQuill_def)
  have n: "ur_quantity (exUpdateReq i) = Some 0" "(0::int) \<le> 0" for i
    by (simp_all add: exUpdateReq_def)
  have b: "ur_savedForLater (exUpdateReq i) = Some True" for i
    by (simp add: exUpdateReq_def)
  have len: "length (c_items exCart) = 2" by (simp add: exCart_def)
  from updateCartItem_stale_index[OF q c i2 n b, of "\<lambda>c. c" exEnv] len
  have last: "updateCartItem (\<lambda>c. c) exEnv (exUpdateReq ''i2'') exDb = (Inl TypeError, exDb)"
    by simp
  from updateCartItem_stale_index[OF q c i1 n b, of "\<lambda>c. c" exEnv] len
  have inner: "ci_id (c_items exCart ! 0) = ''i1'' \<and>
    fst (updateCartItem (\<lambda>c. c) exEnv (exUpdateReq ''i1'') exDb) =
     Inr (exCart\<lparr>c_items := [exLineQuill\<lparr>ci_savedForLater := True\<rparr>]\<rparr>)"
    by (simp add: exCart_def exEnv_def exUpdateReq_def)
  from last inner show ?thesis by blast
qed

end
